theory Spec2Isabelle
  imports Main
begin

section \<open>Python values\<close>

text \<open>
  The modifiers of a Feat are plain Python objects.  Only the shapes that
  \<^verbatim>\<open>feat.py\<close> inspects are kept: truth value, iteration, indexing with 0, the
  test \<^verbatim>\<open>isinstance(x, (list, tuple))\<close>, identity with \<^verbatim>\<open>None\<close> and
  \<^verbatim>\<open>callable\<close>.  A set is kept in its iteration order, a dict as its items in
  insertion order, a callable by its name.
\<close>

datatype pyval =
    PyNone
  | PyInt int
  | PyStr string
  | PyTuple "pyval list"
  | PyList "pyval list"
  | PySet "pyval list"
  | PyDict "(pyval \<times> pyval) list"
  | PyFunc string

datatype error =
    TypeError
  | KeyError
  | IndexError
  | AttributeError string string string

text \<open>\<^verbatim>\<open>if x:\<close>\<close>

fun truthy :: "pyval \<Rightarrow> bool" where
  "truthy PyNone = False"
| "truthy (PyInt n) = (n \<noteq> 0)"
| "truthy (PyStr s) = (s \<noteq> [])"
| "truthy (PyTuple xs) = (xs \<noteq> [])"
| "truthy (PyList xs) = (xs \<noteq> [])"
| "truthy (PySet xs) = (xs \<noteq> [])"
| "truthy (PyDict kvs) = (kvs \<noteq> [])"
| "truthy (PyFunc f) = True"

text \<open>\<^verbatim>\<open>for x in v\<close> and \<^verbatim>\<open>f(*v)\<close>: the objects visited, or TypeError.\<close>

fun py_iter :: "pyval \<Rightarrow> error + pyval list" where
  "py_iter (PyTuple xs) = Inr xs"
| "py_iter (PyList xs) = Inr xs"
| "py_iter (PySet xs) = Inr xs"
| "py_iter (PyDict kvs) = Inr (map fst kvs)"
| "py_iter (PyStr s) = Inr (map (\<lambda>c. PyStr [c]) s)"
| "py_iter PyNone = Inl TypeError"
| "py_iter (PyInt n) = Inl TypeError"
| "py_iter (PyFunc f) = Inl TypeError"

text \<open>\<^verbatim>\<open>v[0]\<close>\<close>

fun py_getitem0 :: "pyval \<Rightarrow> error + pyval" where
  "py_getitem0 (PyTuple xs) = (case xs of [] \<Rightarrow> Inl IndexError | x # _ \<Rightarrow> Inr x)"
| "py_getitem0 (PyList xs) = (case xs of [] \<Rightarrow> Inl IndexError | x # _ \<Rightarrow> Inr x)"
| "py_getitem0 (PyStr s) = (case s of [] \<Rightarrow> Inl IndexError | c # _ \<Rightarrow> Inr (PyStr [c]))"
| "py_getitem0 (PyDict kvs) =
     (case map_of kvs (PyInt 0) of None \<Rightarrow> Inl KeyError | Some v \<Rightarrow> Inr v)"
| "py_getitem0 (PySet xs) = Inl TypeError"
| "py_getitem0 PyNone = Inl TypeError"
| "py_getitem0 (PyInt n) = Inl TypeError"
| "py_getitem0 (PyFunc f) = Inl TypeError"

text \<open>\<^verbatim>\<open>isinstance(x, (list, tuple))\<close>\<close>

fun is_list_or_tuple :: "pyval \<Rightarrow> bool" where
  "is_list_or_tuple (PyTuple xs) = True"
| "is_list_or_tuple (PyList xs) = True"
| "is_list_or_tuple v = False"

text \<open>\<^verbatim>\<open>callable(x)\<close>\<close>

fun callable :: "pyval \<Rightarrow> bool" where
  "callable (PyFunc f) = True"
| "callable v = False"

section \<open>Pipeline stages\<close>

text \<open>
  The stage constructors of \<^verbatim>\<open>lantz_core/processors.py\<close> are kept as the calls
  that \<^verbatim>\<open>Feat.rebuild\<close> makes, each with its argument: \<^verbatim>\<open>MyRange(*l)\<close> records
  its positional arguments, \<^verbatim>\<open>range_checker\<close> receives either one range or a
  tuple of ranges, \<^verbatim>\<open>Processor(func)\<close> wraps one callable.  A
  \<^verbatim>\<open>Processor()\<close> under construction is the list of stages appended so far.
\<close>

datatype myrange = MyRange "pyval list"

datatype range_arg = OneRange myrange | RangeTuple "myrange list"

datatype stage =
    to_quantity_converter pyval
  | to_magnitude_converter pyval
  | reverse_mapper_or_checker pyval
  | mapper_or_checker pyval
  | range_checker range_arg
  | Processor pyval

type_synonym processor = "stage list"

definition append :: "processor \<Rightarrow> stage \<Rightarrow> processor" where
  "append p s = p @ [s]"

text \<open>\<^verbatim>\<open>MyRange(*l)\<close>\<close>

definition MyRange_star :: "pyval \<Rightarrow> error + myrange" where
  "MyRange_star l = (case py_iter l of Inl e \<Rightarrow> Inl e | Inr args \<Rightarrow> Inr (MyRange args))"

text \<open>\<^verbatim>\<open>tuple(MyRange(*l) for l in limits)\<close>, stopping at the first element that raises.\<close>

fun MyRange_each :: "pyval list \<Rightarrow> error + myrange list" where
  "MyRange_each [] = Inr []"
| "MyRange_each (l # ls) =
     (case MyRange_star l of
        Inl e \<Rightarrow> Inl e
      | Inr r \<Rightarrow> (case MyRange_each ls of Inl e \<Rightarrow> Inl e | Inr rs \<Rightarrow> Inr (r # rs)))"

text \<open>Lines 144 to 147 of \<^verbatim>\<open>feat.py\<close>: the stage built from a truthy \<^verbatim>\<open>limits\<close>.\<close>

definition limits_stage :: "pyval \<Rightarrow> error + stage" where
  "limits_stage limits =
     (case py_getitem0 limits of
        Inl e \<Rightarrow> Inl e
      | Inr first \<Rightarrow>
          if is_list_or_tuple first then
            (case py_iter limits of
               Inl e \<Rightarrow> Inl e
             | Inr ls \<Rightarrow>
                 (case MyRange_each ls of
                    Inl e \<Rightarrow> Inl e
                  | Inr rs \<Rightarrow> Inr (range_checker (RangeTuple rs))))
          else
            (case MyRange_star limits of
               Inl e \<Rightarrow> Inl e
             | Inr r \<Rightarrow> Inr (range_checker (OneRange r))))"

text \<open>
  The loops of lines 150 to 152 and 155 to 157: every entry that is not
  \<^verbatim>\<open>None\<close> is wrapped and appended.
\<close>

fun append_funcs :: "processor \<Rightarrow> pyval list \<Rightarrow> processor" where
  "append_funcs p [] = p"
| "append_funcs p (func # funcs) =
     (if func \<noteq> PyNone then append_funcs (append p (Processor func)) funcs
      else append_funcs p funcs)"

text \<open>\<^verbatim>\<open>if funcs: for func in funcs: ...\<close>\<close>

definition extend_with :: "processor \<Rightarrow> pyval \<Rightarrow> error + processor" where
  "extend_with p funcs =
     (if truthy funcs then
        (case py_iter funcs of Inl e \<Rightarrow> Inl e | Inr fs \<Rightarrow> Inr (append_funcs p fs))
      else Inr p)"

text \<open>
  Lines 134 to 157 of \<^verbatim>\<open>Feat.rebuild\<close>: the two processors built from the five
  modifier values, as (get_processors, set_processors), or the exception
  raised on the way.
\<close>

definition rebuild_processors ::
  "pyval \<Rightarrow> pyval \<Rightarrow> pyval \<Rightarrow> pyval \<Rightarrow> pyval \<Rightarrow> error + (processor \<times> processor)" where
  "rebuild_processors values units limits get_funcs set_funcs =
     (let get_processors = [];
          set_processors = [];
          (get_processors, set_processors) =
            (if truthy units then
               (append get_processors (to_quantity_converter units),
                append set_processors (to_magnitude_converter units))
             else (get_processors, set_processors));
          (get_processors, set_processors) =
            (if truthy values then
               (append get_processors (reverse_mapper_or_checker values),
                append set_processors (mapper_or_checker values))
             else (get_processors, set_processors))
      in case (if truthy limits then
                 (case limits_stage limits of
                    Inl e \<Rightarrow> Inl e
                  | Inr s \<Rightarrow> Inr (append set_processors s))
               else Inr set_processors) of
           Inl e \<Rightarrow> Inl e
         | Inr set_processors \<Rightarrow>
             (case extend_with get_processors get_funcs of
                Inl e \<Rightarrow> Inl e
              | Inr get_processors \<Rightarrow>
                  (case extend_with set_processors set_funcs of
                     Inl e \<Rightarrow> Inl e
                   | Inr set_processors \<Rightarrow> Inr (get_processors, set_processors))))"

text \<open>The entries that the loops over \<^verbatim>\<open>get_funcs\<close> and \<^verbatim>\<open>set_funcs\<close> visit.\<close>

definition supplied :: "pyval \<Rightarrow> pyval list" where
  "supplied funcs =
     (if truthy funcs then (case py_iter funcs of Inl e \<Rightarrow> [] | Inr fs \<Rightarrow> fs) else [])"



section \<open>The modifier store\<close>

text \<open>
  A call that mutates an object returns the object after the call; when the
  call raises, the exception comes with the object as the raise left it.
\<close>

datatype 's res = Done 's | Raised error 's

text \<open>The object a call leaves behind, whether it returned or raised.\<close>

fun state_of :: "'s res \<Rightarrow> 's" where
  "state_of (Done s) = s"
| "state_of (Raised e s) = s"

text \<open>
  What \<^verbatim>\<open>Feat\<close> and \<^verbatim>\<open>DictFeat\<close> share through
  \<^verbatim>\<open>InstanceConfigurableProperty\<close>: a name, the raw accessors, the class-level
  value of every \<^verbatim>\<open>Config\<close> and the overrides of each owning instance
  (type \<open>'i\<close>).  A scope is \<open>None\<close> for the class level or \<open>Some i\<close> for
  the instance \<open>i\<close>.  \<open>base_config_keys\<close> are the \<^verbatim>\<open>Config\<close> names
  inherited from the property classes of pimpmyclass; \<open>members\<close> are the
  other attributes and methods that \<^verbatim>\<open>getattr\<close> finds on the descriptor
  (a method as a \<open>PyFunc\<close>).
\<close>

record 'i configurable =
  name :: string
  fget :: pyval
  fset :: pyval
  base_config_keys :: "string list"
  class_config :: "string \<rightharpoonup> pyval"
  inst_config :: "'i \<Rightarrow> string \<rightharpoonup> pyval"
  members :: "string \<rightharpoonup> pyval"

text \<open>Lines 79 to 83 and 179 to 183: the five modifiers declared as \<^verbatim>\<open>Config()\<close>.\<close>

definition modifier_keys :: "string list" where
  "modifier_keys = [''values'', ''units'', ''limits'', ''get_funcs'', ''set_funcs'']"

text \<open>\<^verbatim>\<open>_config_keys\<close>\<close>

definition config_keys :: "('i, 'm) configurable_scheme \<Rightarrow> string list" where
  "config_keys self = modifier_keys @ base_config_keys self"

text \<open>
  Modelled from the spec: \<^verbatim>\<open>config_get\<close>, \<^verbatim>\<open>config_set\<close>, \<^verbatim>\<open>config_iter\<close> and
  the generated \<^verbatim>\<open>*_iget\<close> and \<^verbatim>\<open>*_iset\<close> accessors belong to pimpmyclass, which
  is not among the sources.  The spec describes the store as per-descriptor,
  per-instance key/value configuration "with class-level defaults and
  instance-level overrides", a read returning "the instance-scoped value
  (falling back to class-level default if no override exists)", and a write
  as one that "stores the instance-scoped override and triggers the owning
  descriptor's on_modifier_changed(instance, name, value)".  A modifier that
  was never given is \<^verbatim>\<open>None\<close>.
\<close>

definition class_value :: "('i, 'm) configurable_scheme \<Rightarrow> string \<Rightarrow> pyval" where
  "class_value self key = (case class_config self key of None \<Rightarrow> PyNone | Some v \<Rightarrow> v)"

definition config_get :: "('i, 'm) configurable_scheme \<Rightarrow> 'i option \<Rightarrow> string \<Rightarrow> pyval" where
  "config_get self instance key =
     (case instance of
        None \<Rightarrow> class_value self key
      | Some i \<Rightarrow>
          (case inst_config self i key of
             None \<Rightarrow> class_value self key
           | Some v \<Rightarrow> v))"

definition config_store ::
  "('i, 'm) configurable_scheme \<Rightarrow> 'i option \<Rightarrow> string \<Rightarrow> pyval \<Rightarrow> ('i, 'm) configurable_scheme" where
  "config_store self instance key v =
     (case instance of
        None \<Rightarrow> self\<lparr>class_config := (class_config self)(key \<mapsto> v)\<rparr>
      | Some i \<Rightarrow> self\<lparr>inst_config := (inst_config self)(i := (inst_config self i)(key \<mapsto> v))\<rparr>)"

definition config_iter :: "('i, 'm) configurable_scheme \<Rightarrow> 'i option \<Rightarrow> (string \<times> pyval) list" where
  "config_iter self instance = map (\<lambda>key. (key, config_get self instance key)) (config_keys self)"

text \<open>\<^verbatim>\<open>dict(pairs)\<close>: a later pair replaces an earlier one with the same key.\<close>

definition dict_of :: "(string \<times> pyval) list \<Rightarrow> string \<rightharpoonup> pyval" where
  "dict_of pairs = fold (\<lambda>(k, v) m. m(k \<mapsto> v)) pairs Map.empty"

section \<open>Feat\<close>

text \<open>
  A \<^verbatim>\<open>Feat\<close> adds the two stored pipelines of \<^verbatim>\<open>TransformProperty\<close>, one pair
  for each scope that was rebuilt.  \<^verbatim>\<open>post_get\<close> and \<^verbatim>\<open>pre_set\<close> hold
  processors and not modifier values, so they are fields of their own.
\<close>

record 'i feat = "'i configurable" +
  post_get :: "'i option \<rightharpoonup> processor"
  pre_set :: "'i option \<rightharpoonup> processor"

text \<open>
  The writes of lines 159 and 160.  The change handler that follows such a
  write leaves at line 123, since neither key is one of the five.
\<close>

definition post_get_iset :: "'i option \<Rightarrow> processor \<Rightarrow> 'i feat \<Rightarrow> 'i feat" where
  "post_get_iset instance p self = self\<lparr>post_get := (post_get self)(instance \<mapsto> p)\<rparr>"

definition pre_set_iset :: "'i option \<Rightarrow> processor \<Rightarrow> 'i feat \<Rightarrow> 'i feat" where
  "pre_set_iset instance p self = self\<lparr>pre_set := (pre_set self)(instance \<mapsto> p)\<rparr>"

text \<open>\<^verbatim>\<open>Feat.rebuild\<close>; \<^verbatim>\<open>reversed\<close> is list reversal.\<close>

definition rebuild :: "'i option \<Rightarrow> 'i feat \<Rightarrow> 'i feat res" where
  "rebuild instance self =
     (let values = config_get self instance ''values'';
          units = config_get self instance ''units'';
          limits = config_get self instance ''limits'';
          get_funcs = config_get self instance ''get_funcs'';
          set_funcs = config_get self instance ''set_funcs''
      in case rebuild_processors values units limits get_funcs set_funcs of
           Inl e \<Rightarrow> Raised e self
         | Inr (get_processors, set_processors) \<Rightarrow>
             Done (pre_set_iset instance set_processors
                    (post_get_iset instance (rev get_processors) self)))"

text \<open>\<^verbatim>\<open>Feat.on_config_set\<close>; the handlers of the base classes do nothing here.\<close>

definition Feat_on_config_set :: "'i option \<Rightarrow> string \<Rightarrow> pyval \<Rightarrow> 'i feat \<Rightarrow> 'i feat res" where
  "Feat_on_config_set instance key v self =
     (if key \<notin> set modifier_keys then Done self
      else rebuild instance self)"

definition Feat_config_set :: "'i option \<Rightarrow> string \<Rightarrow> pyval \<Rightarrow> 'i feat \<Rightarrow> 'i feat res" where
  "Feat_config_set instance key v self =
     Feat_on_config_set instance key v (config_store self instance key v)"

text \<open>
  Modelled from the spec: assigning to a \<^verbatim>\<open>Config\<close> attribute of the descriptor
  itself (\<^verbatim>\<open>setattr(feat, key, value)\<close>, pimpmyclass) is the write at class
  scope: modifiers are "defined at class scope; overridable per owning
  instance".
\<close>

definition Feat_setattr :: "string \<Rightarrow> pyval \<Rightarrow> 'i feat \<Rightarrow> 'i feat res" where
  "Feat_setattr key v self = Feat_config_set None key v self"

text \<open>
  Modelled from the spec: the constructor \<^verbatim>\<open>Feat(fget=..., fset=..., **kwargs)\<close>
  is inherited from pimpmyclass.  It yields a fresh descriptor with the given
  raw accessors whose class-level modifiers are the keyword arguments, with no
  override of any instance.  \<open>base_keys\<close> and \<open>ms\<close> are what the class
  \<^verbatim>\<open>Feat\<close> inherits.
\<close>

definition Feat :: "string list \<Rightarrow> (string \<rightharpoonup> pyval) \<Rightarrow> pyval \<Rightarrow> pyval \<Rightarrow> (string \<times> pyval) list \<Rightarrow> 'i feat" where
  "Feat base_keys ms fget' fset' kwargs =
     \<lparr>name = [], fget = fget', fset = fset', base_config_keys = base_keys,
      class_config = dict_of kwargs, inst_config = (\<lambda>i. Map.empty), members = ms,
      post_get = Map.empty, pre_set = Map.empty\<rparr>"

section \<open>DictFeat\<close>

text \<open>
  A \<^verbatim>\<open>DictFeat\<close> keeps the sub-descriptors built so far in \<^verbatim>\<open>_subproperties\<close>,
  a dict whose items are visited in insertion order.  Its keys (type \<open>'k\<close>)
  are those of pimpmyclass; \<^verbatim>\<open>feat.py\<close> never looks at them.
\<close>

record ('k, 'i) dictfeat = "'i configurable" +
  subproperties :: "('k \<times> 'i feat) list"

text \<open>\<^verbatim>\<open>DictFeat.build_subproperty\<close>; the argument \<^verbatim>\<open>key\<close> is not used.\<close>

definition build_subproperty ::
  "string list \<Rightarrow> (string \<rightharpoonup> pyval) \<Rightarrow> ('k, 'i) dictfeat \<Rightarrow> pyval \<Rightarrow> pyval \<Rightarrow> pyval \<Rightarrow> 'i option \<Rightarrow> 'i feat" where
  "build_subproperty base_keys ms self key fget' fset' instance =
     (let p = Feat base_keys ms fget' fset' (config_iter self instance)
      in p)"

text \<open>
  The loop of lines 222 and 223.  When an assignment raises, the entries
  after it are not reached.
\<close>

fun setattr_each :: "string \<Rightarrow> pyval \<Rightarrow> ('k \<times> 'i feat) list \<Rightarrow> ('k \<times> 'i feat) list res" where
  "setattr_each key v [] = Done []"
| "setattr_each key v ((k, subprop) # rest) =
     (case Feat_setattr key v subprop of
        Raised e subprop' \<Rightarrow> Raised e ((k, subprop') # rest)
      | Done subprop' \<Rightarrow>
          (case setattr_each key v rest of
             Raised e rest' \<Rightarrow> Raised e ((k, subprop') # rest')
           | Done rest' \<Rightarrow> Done ((k, subprop') # rest')))"

text \<open>\<^verbatim>\<open>DictFeat.on_config_set\<close>\<close>

definition DictFeat_on_config_set ::
  "'i option \<Rightarrow> string \<Rightarrow> pyval \<Rightarrow> ('k, 'i) dictfeat \<Rightarrow> ('k, 'i) dictfeat res" where
  "DictFeat_on_config_set instance key v self =
     (if key \<notin> set modifier_keys then Done self
      else
        (case setattr_each key v (subproperties self) of
           Raised e subs \<Rightarrow> Raised e (self\<lparr>subproperties := subs\<rparr>)
         | Done subs \<Rightarrow> Done (self\<lparr>subproperties := subs\<rparr>)))"

definition DictFeat_config_set ::
  "'i option \<Rightarrow> string \<Rightarrow> pyval \<Rightarrow> ('k, 'i) dictfeat \<Rightarrow> ('k, 'i) dictfeat res" where
  "DictFeat_config_set instance key v self =
     DictFeat_on_config_set instance key v (config_store self instance key v)"

section \<open>Instance proxies\<close>

text \<open>
  What \<^verbatim>\<open>__getattr__\<close> of a proxy returns: an object, or
  \<^verbatim>\<open>functools.partial(member, instance)\<close>.
\<close>

datatype 'i attr = Plain pyval | Partial pyval 'i

text \<open>\<^verbatim>\<open>FeatProxy.__getattr__\<close>\<close>

definition FeatProxy_getattr :: "'i \<Rightarrow> 'i feat \<Rightarrow> string \<Rightarrow> error + 'i attr" where
  "FeatProxy_getattr instance proxied item =
     (if item \<in> set (config_keys proxied) then
        Inr (Plain (config_get proxied (Some instance) item))
      else
        (case members proxied item of
           Some out \<Rightarrow> if callable out then Inr (Partial out instance) else Inr (Plain out)
         | None \<Rightarrow>
             Inl (AttributeError
                    ''Cannot get %s in %s. Invalid Feat method, property or modifier''
                    item (name proxied))))"

text \<open>\<^verbatim>\<open>FeatProxy.__setattr__\<close>\<close>

definition FeatProxy_setattr :: "'i \<Rightarrow> 'i feat \<Rightarrow> string \<Rightarrow> pyval \<Rightarrow> 'i feat res" where
  "FeatProxy_setattr instance proxied item v =
     (if item \<notin> set (config_keys proxied) then
        Raised (AttributeError ''Cannot set %s in %s. Invalid Feat modifier''
                  item (name proxied)) proxied
      else Feat_config_set (Some instance) item v proxied)"

text \<open>\<^verbatim>\<open>DictFeatProxy.__getattr__\<close>\<close>

definition DictFeatProxy_getattr :: "'i \<Rightarrow> ('k, 'i) dictfeat \<Rightarrow> string \<Rightarrow> error + 'i attr" where
  "DictFeatProxy_getattr instance proxied item =
     (if item \<in> set (config_keys proxied) then
        Inr (Plain (config_get proxied (Some instance) item))
      else
        (case members proxied item of
           Some out \<Rightarrow> if callable out then Inr (Partial out instance) else Inr (Plain out)
         | None \<Rightarrow>
             Inl (AttributeError
                    ''Cannot get %s in %s. Invalid DictFeat method, property or modifier''
                    item (name proxied))))"

text \<open>\<^verbatim>\<open>DictFeatProxy.__setattr__\<close>\<close>

definition DictFeatProxy_setattr ::
  "'i \<Rightarrow> ('k, 'i) dictfeat \<Rightarrow> string \<Rightarrow> pyval \<Rightarrow> ('k, 'i) dictfeat res" where
  "DictFeatProxy_setattr instance proxied item v =
     (if item \<notin> set (config_keys proxied) then
        Raised (AttributeError ''Cannot set %s in %s. Invalid DictFeat modifier''
                  item (name proxied)) proxied
      else DictFeat_config_set (Some instance) item v proxied)"

section \<open>Binding a descriptor to its owner\<close>

text \<open>
  Classes, registries and descriptors are objects that several names may
  refer to, so they live in stores and are referred to by address.  A class
  has its \<^verbatim>\<open>__qualname__\<close>, the classes after itself in its \<^verbatim>\<open>__mro__\<close>, and
  the registries bound in its own \<^verbatim>\<open>__dict__\<close>.  A registry is a dict from
  attribute name to descriptor with the attribute \<^verbatim>\<open>__lantz_driver_cls__\<close>,
  absent on a registry that was never tagged.
\<close>

type_synonym addr = nat

record registry =
  lantz_driver_cls :: "string option"
  entries :: "string \<rightharpoonup> addr"

record pyclass =
  qualname :: string
  ancestors :: "addr list"
  own_attrs :: "string \<rightharpoonup> addr"

record ('k, 'i) world =
  classes :: "addr \<rightharpoonup> pyclass"
  registries :: "registry list"
  feats :: "addr \<rightharpoonup> 'i feat"
  dictfeats :: "addr \<rightharpoonup> ('k, 'i) dictfeat"

text \<open>Attribute lookup on a class: its own \<^verbatim>\<open>__dict__\<close>, then along the MRO.\<close>

fun find_attr :: "(addr \<rightharpoonup> pyclass) \<Rightarrow> addr list \<Rightarrow> string \<Rightarrow> addr option" where
  "find_attr cs [] a = None"
| "find_attr cs (c # rest) a =
     (case cs c of
        None \<Rightarrow> find_attr cs rest a
      | Some k \<Rightarrow>
          (case own_attrs k a of
             Some r \<Rightarrow> Some r
           | None \<Rightarrow> find_attr cs rest a))"

definition class_getattr :: "('k, 'i, 'm) world_scheme \<Rightarrow> addr \<Rightarrow> string \<Rightarrow> addr option" where
  "class_getattr w owner a =
     (case classes w owner of
        None \<Rightarrow> None
      | Some k \<Rightarrow> find_attr (classes w) (owner # ancestors k) a)"

text \<open>The registry object that \<^verbatim>\<open>owner.attr\<close> evaluates to.\<close>

definition class_registry :: "('k, 'i, 'm) world_scheme \<Rightarrow> addr \<Rightarrow> string \<Rightarrow> registry option" where
  "class_registry w owner a =
     (case class_getattr w owner a of
        None \<Rightarrow> None
      | Some r \<Rightarrow> if r < length (registries w) then Some (registries w ! r) else None)"

text \<open>
  Lines 96 to 103, and lines 190 to 197 with the other attribute: fork the
  registry that the owner sees unless its tag is the owner's qualified name,
  then store the descriptor under the name in the registry that the owner
  sees now.  A missing registry attribute is Python's AttributeError; an
  owner or a registry address with no object behind it does not occur in a
  running program and is answered the same way.
\<close>

definition register_descriptor ::
  "string \<Rightarrow> ('k, 'i, 'm) world_scheme \<Rightarrow> addr \<Rightarrow> string \<Rightarrow> addr \<Rightarrow> error + ('k, 'i, 'm) world_scheme" where
  "register_descriptor attr w owner nm self =
     (case classes w owner of
        None \<Rightarrow> Inl (AttributeError ''no such class'' attr nm)
      | Some k \<Rightarrow>
          (case class_registry w owner attr of
             None \<Rightarrow> Inl (AttributeError ''type object has no attribute'' attr nm)
           | Some d \<Rightarrow>
               let w1 =
                 (if lantz_driver_cls d \<noteq> Some (qualname k) then
                    let d' = \<lparr>lantz_driver_cls = Some (qualname k), entries = entries d\<rparr>;
                        a = length (registries w)
                    in w\<lparr>registries := registries w @ [d'],
                         classes := (classes w)(owner \<mapsto> k\<lparr>own_attrs := (own_attrs k)(attr \<mapsto> a)\<rparr>)\<rparr>
                  else w)
               in (case class_getattr w1 owner attr of
                     None \<Rightarrow> Inl (AttributeError ''type object has no attribute'' attr nm)
                   | Some r \<Rightarrow>
                       Inr (w1\<lparr>registries :=
                                 (registries w1)[r := (registries w1 ! r)
                                    \<lparr>entries := (entries (registries w1 ! r))(nm \<mapsto> self)\<rparr>]\<rparr>))))"

text \<open>
  \<^verbatim>\<open>Feat.__set_name__\<close>.  Modelled from the spec: the inherited
  \<^verbatim>\<open>__set_name__\<close> of pimpmyclass records the attribute name, a descriptor's
  identity being "(owning type, attribute name)".
\<close>

definition Feat_set_name ::
  "('k, 'i) world \<Rightarrow> addr \<Rightarrow> addr \<Rightarrow> string \<Rightarrow> ('k, 'i) world res" where
  "Feat_set_name w self owner nm =
     (case feats w self of
        None \<Rightarrow> Raised (AttributeError ''no such descriptor'' ''_lantz_feats'' nm) w
      | Some f \<Rightarrow>
          let w0 = w\<lparr>feats := (feats w)(self \<mapsto> f\<lparr>name := nm\<rparr>)\<rparr>
          in (case register_descriptor ''_lantz_feats'' w0 owner nm self of
                Inl e \<Rightarrow> Raised e w0
              | Inr w1 \<Rightarrow>
                  (case rebuild None (f\<lparr>name := nm\<rparr>) of
                     Raised e f' \<Rightarrow> Raised e (w1\<lparr>feats := (feats w1)(self \<mapsto> f')\<rparr>)
                   | Done f' \<Rightarrow> Done (w1\<lparr>feats := (feats w1)(self \<mapsto> f')\<rparr>))))"

text \<open>\<^verbatim>\<open>DictFeat.__set_name__\<close>\<close>

definition DictFeat_set_name ::
  "('k, 'i) world \<Rightarrow> addr \<Rightarrow> addr \<Rightarrow> string \<Rightarrow> ('k, 'i) world res" where
  "DictFeat_set_name w self owner nm =
     (case dictfeats w self of
        None \<Rightarrow> Raised (AttributeError ''no such descriptor'' ''_lantz_dictfeats'' nm) w
      | Some f \<Rightarrow>
          let w0 = w\<lparr>dictfeats := (dictfeats w)(self \<mapsto> f\<lparr>name := nm\<rparr>)\<rparr>
          in (case register_descriptor ''_lantz_dictfeats'' w0 owner nm self of
                Inl e \<Rightarrow> Raised e w0
              | Inr w1 \<Rightarrow> Done w1))"

text \<open>The descriptor that a class has registered under a name.\<close>

definition registered_feat :: "('k, 'i, 'm) world_scheme \<Rightarrow> addr \<Rightarrow> string \<Rightarrow> addr option" where
  "registered_feat w cls nm =
     (case class_registry w cls ''_lantz_feats'' of
        None \<Rightarrow> None
      | Some d \<Rightarrow> entries d nm)"

section \<open>Example objects\<close>

text \<open>A descriptor with units, a value map and two extra read functions.\<close>

definition example_feat :: "nat feat" where
  "example_feat =
     Feat [''read_once''] [''_storage_ns'' \<mapsto> PyStr ''feat'', ''rebuild'' \<mapsto> PyFunc ''rebuild'']
       (PyFunc ''fget'') (PyFunc ''fset'')
     [(''units'', PyStr ''V''),
      (''values'', PyDict [(PyStr ''low'', PyInt 1), (PyStr ''high'', PyInt 2)]),
      (''get_funcs'', PyList [PyFunc ''f'', PyNone, PyFunc ''g''])]"

text \<open>The same descriptor after instance 1 has overridden \<^verbatim>\<open>read_once\<close>.\<close>

definition example_feat_once :: "nat feat" where
  "example_feat_once = config_store example_feat (Some 1) ''read_once'' (PyInt 1)"

text \<open>An indexed descriptor with no sub-descriptor yet.\<close>

definition example_dictfeat :: "(nat \<times> string, nat) dictfeat" where
  "example_dictfeat =
     \<lparr>name = ''gain'', fget = PyFunc ''fget'', fset = PyFunc ''fset'',
      base_config_keys = [], class_config = [''units'' \<mapsto> PyStr ''V''],
      inst_config = (\<lambda>i. Map.empty),
      members = [''_storage_ns'' \<mapsto> PyStr ''dictfeat'',
                 ''build_subproperty'' \<mapsto> PyFunc ''build_subproperty''],
      subproperties = []\<rparr>"

text \<open>
  The same indexed descriptor after it has materialized the key \<^verbatim>\<open>'a'\<close> for the
  instances 1 and 2, each entry of \<^verbatim>\<open>_subproperties\<close> under (instance, key).
\<close>

definition example_sub :: "nat \<Rightarrow> nat feat" where
  "example_sub i =
     build_subproperty [''read_once''] Map.empty example_dictfeat (PyStr ''a'')
       (PyFunc ''fget_a'') (PyFunc ''fset_a'') (Some i)"

definition example_indexed :: "(nat \<times> string, nat) dictfeat" where
  "example_indexed =
     example_dictfeat\<lparr>subproperties := [((1, ''a''), example_sub 1), ((2, ''a''), example_sub 2)]\<rparr>"

text \<open>
  A driver base class 0 with untagged registries, a driver 1 named
  \<^verbatim>\<open>Scope\<close> that has registered the descriptor 10 under \<^verbatim>\<open>gain\<close>, and two
  subclasses of it that have no registry of their own yet: the class 2,
  defined in another module and named \<^verbatim>\<open>Scope\<close> as well, and the class 3,
  named \<^verbatim>\<open>FastScope\<close>.
\<close>

definition example_world :: "(nat \<times> string, nat) world" where
  "example_world =
     \<lparr>classes =
        [0 \<mapsto> \<lparr>qualname = ''Driver'', ancestors = [],
                 own_attrs = [''_lantz_feats'' \<mapsto> 0, ''_lantz_dictfeats'' \<mapsto> 1]\<rparr>,
         1 \<mapsto> \<lparr>qualname = ''Scope'', ancestors = [0], own_attrs = [''_lantz_feats'' \<mapsto> 2]\<rparr>,
         2 \<mapsto> \<lparr>qualname = ''Scope'', ancestors = [1, 0], own_attrs = Map.empty\<rparr>,
         3 \<mapsto> \<lparr>qualname = ''FastScope'', ancestors = [1, 0], own_attrs = Map.empty\<rparr>],
      registries =
        [\<lparr>lantz_driver_cls = None, entries = Map.empty\<rparr>,
         \<lparr>lantz_driver_cls = None, entries = Map.empty\<rparr>,
         \<lparr>lantz_driver_cls = Some ''Scope'', entries = [''gain'' \<mapsto> 10]\<rparr>],
      feats = [10 \<mapsto> example_feat, 11 \<mapsto> example_sub 1],
      dictfeats = [20 \<mapsto> example_dictfeat]\<rparr>"

text \<open>The same classes after the driver 1 has bound the indexed descriptor 20.\<close>

definition example_world_bound :: "(nat \<times> string, nat) world" where
  "example_world_bound =
     example_world\<lparr>
       classes := (classes example_world)
         (1 \<mapsto> \<lparr>qualname = ''Scope'', ancestors = [0],
                  own_attrs = [''_lantz_feats'' \<mapsto> 2, ''_lantz_dictfeats'' \<mapsto> 3]\<rparr>),
       registries := registries example_world
         @ [\<lparr>lantz_driver_cls = Some ''Scope'', entries = [''gain'' \<mapsto> 20]\<rparr>]\<rparr>"


section \<open>The construction order of the pipelines\<close>

lemma append_funcs_eq:
  "append_funcs p fs = p @ map Processor (filter (\<lambda>f. f \<noteq> PyNone) fs)"
  by (induction fs arbitrary: p) (simp_all add: append_def)

lemma extend_with_eq:
  "extend_with p funcs = Inr q \<Longrightarrow>
     q = p @ map Processor (filter (\<lambda>f. f \<noteq> PyNone) (supplied funcs))"
proof (cases "truthy funcs")
  case True
  assume a: "extend_with p funcs = Inr q"
  show ?thesis
  proof (cases "py_iter funcs")
    case (Inl e)
    with a True show ?thesis by (simp add: extend_with_def)
  next
    case (Inr fs)
    with a True show ?thesis by (simp add: extend_with_def supplied_def append_funcs_eq)
  qed
next
  case False
  assume "extend_with p funcs = Inr q"
  with False show ?thesis by (simp add: extend_with_def supplied_def)
qed

lemma limits_stage_is_range_checker:
  "limits_stage limits = Inr s \<Longrightarrow> \<exists>ra. s = range_checker ra"
  by (auto simp: limits_stage_def split: sum.splits if_splits)

text \<open>
  Claim C1.  Whenever \<^verbatim>\<open>Feat.rebuild\<close> gets through the construction, the
  read processor is, in this order: the unit-normalizing stage if \<^verbatim>\<open>units\<close>
  is set, the reverse-mapping stage if \<^verbatim>\<open>values\<close> is set, then one stage for
  every entry of \<^verbatim>\<open>get_funcs\<close> that is not \<^verbatim>\<open>None\<close>, in the order supplied.
  The write processor is: the unit-denormalizing stage if \<^verbatim>\<open>units\<close> is set,
  the forward-mapping stage if \<^verbatim>\<open>values\<close> is set, the limits stage if
  \<^verbatim>\<open>limits\<close> is set, then one stage for every entry of \<^verbatim>\<open>set_funcs\<close> that is
  not \<^verbatim>\<open>None\<close>.  "Set" is the test the code makes, \<^verbatim>\<open>if units:\<close>, Python's
  truth value: \<^verbatim>\<open>None\<close> and an empty string, tuple, list, set or dict count
  as not set.
\<close>

theorem rebuild_construction_order:
  assumes "rebuild_processors values units limits get_funcs set_funcs = Inr (gp, sp)"
  shows "\<exists>ls.
      gp = (if truthy units then [to_quantity_converter units] else [])
         @ (if truthy values then [reverse_mapper_or_checker values] else [])
         @ map Processor (filter (\<lambda>f. f \<noteq> PyNone) (supplied get_funcs))
    \<and> sp = (if truthy units then [to_magnitude_converter units] else [])
         @ (if truthy values then [mapper_or_checker values] else [])
         @ ls
         @ map Processor (filter (\<lambda>f. f \<noteq> PyNone) (supplied set_funcs))
    \<and> (if truthy limits then \<exists>ra. ls = [range_checker ra] else ls = [])"
proof -
  let ?g0 = "(if truthy units then [to_quantity_converter units] else [])
         @ (if truthy values then [reverse_mapper_or_checker values] else [])"
  let ?s0 = "(if truthy units then [to_magnitude_converter units] else [])
         @ (if truthy values then [mapper_or_checker values] else [])"
  from assms obtain s1 where
    lim: "(if truthy limits then
             (case limits_stage limits of Inl e \<Rightarrow> Inl e | Inr s \<Rightarrow> Inr (append ?s0 s))
           else Inr ?s0) = Inr s1"
    and g: "extend_with ?g0 get_funcs = Inr gp"
    and s: "extend_with s1 set_funcs = Inr sp"
    by (auto simp: rebuild_processors_def Let_def append_def split: sum.splits if_splits)
  from lim obtain ls where s1: "s1 = ?s0 @ ls"
    and ls: "if truthy limits then \<exists>ra. ls = [range_checker ra] else ls = []"
    by (auto simp: append_def split: if_splits sum.splits dest: limits_stage_is_range_checker)
  from g have "gp = ?g0 @ map Processor (filter (\<lambda>f. f \<noteq> PyNone) (supplied get_funcs))"
    by (rule extend_with_eq)
  moreover have "sp = ?s0 @ ls @ map Processor (filter (\<lambda>f. f \<noteq> PyNone) (supplied set_funcs))"
    using extend_with_eq [OF s] unfolding s1 by simp
  ultimately show ?thesis using ls by (intro exI[of _ ls]) simp
qed

theorem rebuild_construction_order_witness:
  "rebuild_processors (PyDict [(PyStr ''low'', PyInt 1), (PyStr ''high'', PyInt 2)]) (PyStr ''V'')
       (PyTuple [PyInt 0, PyInt 10])
       (PyList [PyFunc ''f'', PyNone, PyFunc ''g'']) (PyTuple [PyNone, PyFunc ''h''])
     = Inr ([to_quantity_converter (PyStr ''V''),
             reverse_mapper_or_checker (PyDict [(PyStr ''low'', PyInt 1), (PyStr ''high'', PyInt 2)]),
             Processor (PyFunc ''f''), Processor (PyFunc ''g'')],
            [to_magnitude_converter (PyStr ''V''),
             mapper_or_checker (PyDict [(PyStr ''low'', PyInt 1), (PyStr ''high'', PyInt 2)]),
             range_checker (OneRange (MyRange [PyInt 0, PyInt 10])),
             Processor (PyFunc ''h'')])
   \<and> (\<exists>ls. [range_checker (OneRange (MyRange [PyInt 0, PyInt 10])), Processor (PyFunc ''h'')]
           = ls @ map Processor (filter (\<lambda>f. f \<noteq> PyNone) (supplied (PyTuple [PyNone, PyFunc ''h'']))))"
proof -
  have h: "rebuild_processors (PyDict [(PyStr ''low'', PyInt 1), (PyStr ''high'', PyInt 2)]) (PyStr ''V'')
       (PyTuple [PyInt 0, PyInt 10])
       (PyList [PyFunc ''f'', PyNone, PyFunc ''g'']) (PyTuple [PyNone, PyFunc ''h''])
     = Inr ([to_quantity_converter (PyStr ''V''),
             reverse_mapper_or_checker (PyDict [(PyStr ''low'', PyInt 1), (PyStr ''high'', PyInt 2)]),
             Processor (PyFunc ''f''), Processor (PyFunc ''g'')],
            [to_magnitude_converter (PyStr ''V''),
             mapper_or_checker (PyDict [(PyStr ''low'', PyInt 1), (PyStr ''high'', PyInt 2)]),
             range_checker (OneRange (MyRange [PyInt 0, PyInt 10])),
             Processor (PyFunc ''h'')])"
    by (simp add: rebuild_processors_def limits_stage_def MyRange_star_def extend_with_def append_def)
  from rebuild_construction_order [OF h] show ?thesis using h by auto
qed


section \<open>The stored pipelines\<close>

lemma rebuild_Raised: "rebuild instance self = Raised e self' \<Longrightarrow> self' = self"
  by (auto simp: rebuild_def Let_def split: sum.splits prod.splits)

lemma rebuild_Done:
  assumes "rebuild instance self = Done self'"
  obtains gp sp where
    "rebuild_processors (config_get self instance ''values'') (config_get self instance ''units'')
       (config_get self instance ''limits'') (config_get self instance ''get_funcs'')
       (config_get self instance ''set_funcs'') = Inr (gp, sp)"
    "self' = self\<lparr>post_get := (post_get self)(instance \<mapsto> rev gp),
                  pre_set := (pre_set self)(instance \<mapsto> sp)\<rparr>"
  using assms
  by (auto simp: rebuild_def Let_def post_get_iset_def pre_set_iset_def split: sum.splits prod.splits)

text \<open>
  Claim C2.  A rebuild for a scope whose construction gets through returns
  with the constructed read processor stored reversed as the read pipeline of
  that scope, so the stage appended last runs first, and with the constructed
  write processor stored as it was built as the write pipeline of that scope;
  nothing else of the descriptor changes.  Conversely a rebuild that returns
  has stored exactly these, and a construction that raises leaves the
  descriptor as it was.
\<close>

theorem rebuild_stores_pipelines:
  "(\<forall>gp sp.
      rebuild_processors (config_get self instance ''values'') (config_get self instance ''units'')
        (config_get self instance ''limits'') (config_get self instance ''get_funcs'')
        (config_get self instance ''set_funcs'') = Inr (gp, sp) \<longrightarrow>
      rebuild instance self =
        Done (self\<lparr>post_get := (post_get self)(instance \<mapsto> rev gp),
                    pre_set := (pre_set self)(instance \<mapsto> sp)\<rparr>)
      \<and> post_get (state_of (rebuild instance self)) instance = Some (rev gp)
      \<and> pre_set (state_of (rebuild instance self)) instance = Some sp)
   \<and> (\<forall>self'. rebuild instance self = Done self' \<longrightarrow>
        (\<exists>gp sp.
           rebuild_processors (config_get self instance ''values'') (config_get self instance ''units'')
             (config_get self instance ''limits'') (config_get self instance ''get_funcs'')
             (config_get self instance ''set_funcs'') = Inr (gp, sp)
         \<and> post_get self' instance = Some (rev gp)
         \<and> pre_set self' instance = Some sp))
   \<and> (\<forall>e.
      rebuild_processors (config_get self instance ''values'') (config_get self instance ''units'')
        (config_get self instance ''limits'') (config_get self instance ''get_funcs'')
        (config_get self instance ''set_funcs'') = Inl e \<longrightarrow>
      rebuild instance self = Raised e self)"
proof (intro conjI allI impI)
  fix gp sp
  assume b: "rebuild_processors (config_get self instance ''values'') (config_get self instance ''units'')
        (config_get self instance ''limits'') (config_get self instance ''get_funcs'')
        (config_get self instance ''set_funcs'') = Inr (gp, sp)"
  then show r: "rebuild instance self =
        Done (self\<lparr>post_get := (post_get self)(instance \<mapsto> rev gp),
                    pre_set := (pre_set self)(instance \<mapsto> sp)\<rparr>)"
    by (simp add: rebuild_def Let_def post_get_iset_def pre_set_iset_def)
  show "post_get (state_of (rebuild instance self)) instance = Some (rev gp)"
    unfolding r by simp
  show "pre_set (state_of (rebuild instance self)) instance = Some sp"
    unfolding r by simp
next
  fix self'
  assume "rebuild instance self = Done self'"
  then obtain gp sp where
    b: "rebuild_processors (config_get self instance ''values'') (config_get self instance ''units'')
       (config_get self instance ''limits'') (config_get self instance ''get_funcs'')
       (config_get self instance ''set_funcs'') = Inr (gp, sp)"
    and s: "self' = self\<lparr>post_get := (post_get self)(instance \<mapsto> rev gp),
                  pre_set := (pre_set self)(instance \<mapsto> sp)\<rparr>"
    by (rule rebuild_Done)
  from s have "post_get self' instance = Some (rev gp)" "pre_set self' instance = Some sp"
    by simp_all
  with b show "\<exists>gp sp.
           rebuild_processors (config_get self instance ''values'') (config_get self instance ''units'')
             (config_get self instance ''limits'') (config_get self instance ''get_funcs'')
             (config_get self instance ''set_funcs'') = Inr (gp, sp)
         \<and> post_get self' instance = Some (rev gp)
         \<and> pre_set self' instance = Some sp"
    by blast
next
  fix e
  assume "rebuild_processors (config_get self instance ''values'') (config_get self instance ''units'')
        (config_get self instance ''limits'') (config_get self instance ''get_funcs'')
        (config_get self instance ''set_funcs'') = Inl e"
  then show "rebuild instance self = Raised e self"
    by (simp add: rebuild_def Let_def)
qed

lemma example_feat_processors:
  "rebuild_processors (config_get example_feat None ''values'') (config_get example_feat None ''units'')
     (config_get example_feat None ''limits'') (config_get example_feat None ''get_funcs'')
     (config_get example_feat None ''set_funcs'')
   = Inr ([to_quantity_converter (PyStr ''V''),
           reverse_mapper_or_checker (PyDict [(PyStr ''low'', PyInt 1), (PyStr ''high'', PyInt 2)]),
           Processor (PyFunc ''f''), Processor (PyFunc ''g'')],
          [to_magnitude_converter (PyStr ''V''),
           mapper_or_checker (PyDict [(PyStr ''low'', PyInt 1), (PyStr ''high'', PyInt 2)])])"
  by (simp add: example_feat_def Feat_def dict_of_def config_get_def class_value_def
      rebuild_processors_def extend_with_def append_def)

theorem rebuild_stores_pipelines_witness:
  "rebuild None example_feat =
     Done (example_feat\<lparr>
       post_get := (post_get example_feat)(None \<mapsto>
         [Processor (PyFunc ''g''), Processor (PyFunc ''f''),
          reverse_mapper_or_checker (PyDict [(PyStr ''low'', PyInt 1), (PyStr ''high'', PyInt 2)]),
          to_quantity_converter (PyStr ''V'')]),
       pre_set := (pre_set example_feat)(None \<mapsto>
         [to_magnitude_converter (PyStr ''V''),
          mapper_or_checker (PyDict [(PyStr ''low'', PyInt 1), (PyStr ''high'', PyInt 2)])])\<rparr>)
   \<and> post_get example_feat None = None
   \<and> post_get (state_of (rebuild None example_feat)) None =
       Some [Processor (PyFunc ''g''), Processor (PyFunc ''f''),
             reverse_mapper_or_checker (PyDict [(PyStr ''low'', PyInt 1), (PyStr ''high'', PyInt 2)]),
             to_quantity_converter (PyStr ''V'')]
   \<and> pre_set example_feat None = None
   \<and> pre_set (state_of (rebuild None example_feat)) None =
       Some [to_magnitude_converter (PyStr ''V''),
             mapper_or_checker (PyDict [(PyStr ''low'', PyInt 1), (PyStr ''high'', PyInt 2)])]"
proof -
  have n: "post_get example_feat None = None" "pre_set example_feat None = None"
    by (simp_all add: example_feat_def Feat_def)
  from rebuild_stores_pipelines [of example_feat None] example_feat_processors
  have "rebuild None example_feat =
     Done (example_feat\<lparr>
       post_get := (post_get example_feat)(None \<mapsto>
         rev [to_quantity_converter (PyStr ''V''),
           reverse_mapper_or_checker (PyDict [(PyStr ''low'', PyInt 1), (PyStr ''high'', PyInt 2)]),
           Processor (PyFunc ''f''), Processor (PyFunc ''g'')]),
       pre_set := (pre_set example_feat)(None \<mapsto>
         [to_magnitude_converter (PyStr ''V''),
          mapper_or_checker (PyDict [(PyStr ''low'', PyInt 1), (PyStr ''high'', PyInt 2)])])\<rparr>)"
    by blast
  then show ?thesis using n by simp
qed

section \<open>The limits stage\<close>





section \<open>Instance proxies\<close>

lemma config_get_config_store:
  "config_get (config_store self (Some i) key v) (Some i) key = v"
  by (simp add: config_get_def config_store_def)

lemma class_value_config_store:
  "class_value (config_store self (Some i) key v) key' = class_value self key'"
  by (simp add: class_value_def config_store_def)

lemma rebuild_keeps_config:
  "inst_config (state_of (rebuild instance self)) = inst_config self"
  "class_config (state_of (rebuild instance self)) = class_config self"
  by (auto simp: rebuild_def Let_def post_get_iset_def pre_set_iset_def split: sum.splits prod.splits)

lemma Feat_on_config_set_keeps_config:
  "inst_config (state_of (Feat_on_config_set instance key v self)) = inst_config self"
  "class_config (state_of (Feat_on_config_set instance key v self)) = class_config self"
  by (simp_all add: Feat_on_config_set_def rebuild_keeps_config)

lemma DictFeat_on_config_set_keeps_config:
  "inst_config (state_of (DictFeat_on_config_set instance key v self)) = inst_config self"
  "class_config (state_of (DictFeat_on_config_set instance key v self)) = class_config self"
  by (auto simp: DictFeat_on_config_set_def split: res.splits)

lemma config_get_cong:
  "inst_config a = inst_config b \<Longrightarrow> class_config a = class_config b \<Longrightarrow>
     config_get a instance key = config_get b instance key"
  by (auto simp: config_get_def class_value_def split: option.splits)

lemma class_value_cong:
  "class_config a = class_config b \<Longrightarrow> class_value a key = class_value b key"
  by (simp add: class_value_def)

text \<open>
  Claim C6 as stated fails.  \<^verbatim>\<open>read_once\<close> is not one of the five Modifier Set
  keys, yet it is a \<^verbatim>\<open>Config\<close> name of the descriptor: writing it through the
  proxy does not fail, and stores the override of the instance.
\<close>

theorem proxy_setattr_accepts_read_once:
  "''read_once'' \<notin> set modifier_keys
   \<and> FeatProxy_setattr (1::nat) example_feat ''read_once'' (PyInt 1) = Done example_feat_once
   \<and> config_get example_feat (Some 1) ''read_once'' = PyNone
   \<and> config_get example_feat_once (Some 1) ''read_once'' = PyInt 1"
  by (simp add: modifier_keys_def FeatProxy_setattr_def config_keys_def Feat_config_set_def
      Feat_on_config_set_def example_feat_once_def config_get_def config_store_def class_value_def
      example_feat_def Feat_def dict_of_def)

text \<open>
  Claim C6, amended.  Writing an attribute through a proxy raises the
  AttributeError "Cannot set ..." (the spec's InvalidModifierError) when the
  name is not in \<^verbatim>\<open>_config_keys\<close> of the proxied descriptor, that is, neither
  one of the five Modifier Set keys nor a \<^verbatim>\<open>Config\<close> name that the descriptor
  inherits, such as \<^verbatim>\<open>read_once\<close>; the descriptor is then as it was.
  Otherwise the value is stored as the override of the owning instance and
  the descriptor's \<^verbatim>\<open>on_config_set\<close> runs with that instance as scope:
  afterwards the instance reads the new value back, and the class-level value
  is the old one.  This holds for \<^verbatim>\<open>FeatProxy\<close> and for \<^verbatim>\<open>DictFeatProxy\<close>.
\<close>

theorem proxy_setattr_guarded:
  fixes f :: "'i feat" and d :: "('k, 'i) dictfeat"
  shows "(item \<notin> set (config_keys f) \<longrightarrow>
            FeatProxy_setattr i f item v =
              Raised (AttributeError ''Cannot set %s in %s. Invalid Feat modifier'' item (name f)) f)
       \<and> (item \<in> set (config_keys f) \<longrightarrow>
            FeatProxy_setattr i f item v =
              Feat_on_config_set (Some i) item v (config_store f (Some i) item v)
          \<and> config_get (state_of (FeatProxy_setattr i f item v)) (Some i) item = v
          \<and> class_value (state_of (FeatProxy_setattr i f item v)) item = class_value f item)
       \<and> (item \<notin> set (config_keys d) \<longrightarrow>
            DictFeatProxy_setattr i d item v =
              Raised (AttributeError ''Cannot set %s in %s. Invalid DictFeat modifier'' item (name d)) d)
       \<and> (item \<in> set (config_keys d) \<longrightarrow>
            DictFeatProxy_setattr i d item v =
              DictFeat_on_config_set (Some i) item v (config_store d (Some i) item v)
          \<and> config_get (state_of (DictFeatProxy_setattr i d item v)) (Some i) item = v
          \<and> class_value (state_of (DictFeatProxy_setattr i d item v)) item = class_value d item)"
proof -
  have f1: "config_get (state_of (Feat_on_config_set (Some i) item v (config_store f (Some i) item v)))
              (Some i) item = v"
    using config_get_cong [OF Feat_on_config_set_keeps_config]
    by (metis config_get_config_store)
  have f2: "class_value (state_of (Feat_on_config_set (Some i) item v (config_store f (Some i) item v)))
              item = class_value f item"
    using class_value_cong [OF Feat_on_config_set_keeps_config(2)]
    by (metis class_value_config_store)
  have d1: "config_get (state_of (DictFeat_on_config_set (Some i) item v (config_store d (Some i) item v)))
              (Some i) item = v"
    using config_get_cong [OF DictFeat_on_config_set_keeps_config]
    by (metis config_get_config_store)
  have d2: "class_value (state_of (DictFeat_on_config_set (Some i) item v (config_store d (Some i) item v)))
              item = class_value d item"
    using class_value_cong [OF DictFeat_on_config_set_keeps_config(2)]
    by (metis class_value_config_store)
  show ?thesis
    using f1 f2 d1 d2
    by (simp add: FeatProxy_setattr_def DictFeatProxy_setattr_def Feat_config_set_def
        DictFeat_config_set_def)
qed

theorem proxy_setattr_guarded_witness:
  "''bogus'' \<notin> set (config_keys example_feat)
   \<and> FeatProxy_setattr (1::nat) example_feat ''bogus'' (PyInt 3) =
       Raised (AttributeError ''Cannot set %s in %s. Invalid Feat modifier'' ''bogus'' []) example_feat
   \<and> ''units'' \<in> set (config_keys example_feat)
   \<and> config_get (state_of (FeatProxy_setattr (1::nat) example_feat ''units'' (PyStr ''mV'')))
        (Some 1) ''units'' = PyStr ''mV''
   \<and> class_value (state_of (FeatProxy_setattr (1::nat) example_feat ''units'' (PyStr ''mV'')))
        ''units'' = PyStr ''V''
   \<and> ''bogus'' \<notin> set (config_keys example_dictfeat)
   \<and> DictFeatProxy_setattr (1::nat) example_dictfeat ''bogus'' (PyInt 3) =
       Raised (AttributeError ''Cannot set %s in %s. Invalid DictFeat modifier'' ''bogus'' ''gain'')
         example_dictfeat
   \<and> ''units'' \<in> set (config_keys example_dictfeat)
   \<and> config_get (state_of (DictFeatProxy_setattr (1::nat) example_dictfeat ''units'' (PyStr ''mV'')))
        (Some 1) ''units'' = PyStr ''mV''
   \<and> class_value (state_of (DictFeatProxy_setattr (1::nat) example_dictfeat ''units'' (PyStr ''mV'')))
        ''units'' = PyStr ''V''"
proof -
  have k: "''bogus'' \<notin> set (config_keys example_feat)" "''units'' \<in> set (config_keys example_feat)"
    "''bogus'' \<notin> set (config_keys example_dictfeat)" "''units'' \<in> set (config_keys example_dictfeat)"
    by (simp_all add: config_keys_def modifier_keys_def example_feat_def Feat_def example_dictfeat_def)
  have n: "name example_feat = []" "name example_dictfeat = ''gain''"
    "class_value example_feat ''units'' = PyStr ''V''"
    "class_value example_dictfeat ''units'' = PyStr ''V''"
    by (simp_all add: example_feat_def Feat_def example_dictfeat_def class_value_def dict_of_def)
  from k proxy_setattr_guarded [where item = "''bogus''" and f = example_feat
      and d = example_dictfeat and i = 1 and v = "PyInt 3"]
  have r1: "FeatProxy_setattr (1::nat) example_feat ''bogus'' (PyInt 3) =
       Raised (AttributeError ''Cannot set %s in %s. Invalid Feat modifier'' ''bogus''
         (name example_feat)) example_feat"
    "DictFeatProxy_setattr (1::nat) example_dictfeat ''bogus'' (PyInt 3) =
       Raised (AttributeError ''Cannot set %s in %s. Invalid DictFeat modifier'' ''bogus''
         (name example_dictfeat)) example_dictfeat"
    by blast+
  from k proxy_setattr_guarded [where item = "''units''" and f = example_feat
      and d = example_dictfeat and i = 1 and v = "PyStr ''mV''"]
  have r2: "config_get (state_of (FeatProxy_setattr (1::nat) example_feat ''units'' (PyStr ''mV'')))
        (Some 1) ''units'' = PyStr ''mV''"
    "class_value (state_of (FeatProxy_setattr (1::nat) example_feat ''units'' (PyStr ''mV'')))
        ''units'' = class_value example_feat ''units''"
    "config_get (state_of (DictFeatProxy_setattr (1::nat) example_dictfeat ''units'' (PyStr ''mV'')))
        (Some 1) ''units'' = PyStr ''mV''"
    "class_value (state_of (DictFeatProxy_setattr (1::nat) example_dictfeat ''units'' (PyStr ''mV'')))
        ''units'' = class_value example_dictfeat ''units''"
    by blast+
  show ?thesis
    unfolding r1 r2 n using k by simp
qed

text \<open>
  Claim C7 as stated fails.  For \<^verbatim>\<open>read_once\<close>, which is not one of the five
  Modifier Set keys, the proxy returns the override of the instance: it
  neither raises when the descriptor exposes no such member, nor returns the
  member when the descriptor exposes one.
\<close>

theorem proxy_getattr_reads_read_once:
  "''read_once'' \<notin> set modifier_keys
   \<and> members example_feat_once ''read_once'' = None
   \<and> FeatProxy_getattr (1::nat) example_feat_once ''read_once'' = Inr (Plain (PyInt 1))
   \<and> members (example_feat_once\<lparr>members := (members example_feat_once)(''read_once'' \<mapsto> PyNone)\<rparr>)
        ''read_once'' = Some PyNone
   \<and> FeatProxy_getattr (1::nat)
        (example_feat_once\<lparr>members := (members example_feat_once)(''read_once'' \<mapsto> PyNone)\<rparr>)
        ''read_once'' = Inr (Plain (PyInt 1))"
  by (simp add: modifier_keys_def FeatProxy_getattr_def config_keys_def
      example_feat_once_def config_get_def config_store_def class_value_def
      example_feat_def Feat_def dict_of_def)

text \<open>
  Claim C7, amended.  Reading an attribute through a proxy returns, for a name
  in \<^verbatim>\<open>_config_keys\<close> of the proxied descriptor (the five Modifier Set keys
  and the \<^verbatim>\<open>Config\<close> names that the descriptor inherits, such as
  \<^verbatim>\<open>read_once\<close>), the override of the owning instance, or the class-level
  value when the instance has none; for another name that the descriptor
  exposes, the member itself, or \<^verbatim>\<open>functools.partial(member, instance)\<close>
  when the member is callable; and raises the AttributeError "Cannot get ..."
  (the spec's AttributeNotFoundError) for every other name.  This holds for
  \<^verbatim>\<open>FeatProxy\<close> and for \<^verbatim>\<open>DictFeatProxy\<close>.
\<close>

theorem proxy_getattr_dispatch:
  fixes f :: "'i feat" and d :: "('k, 'i) dictfeat"
  shows "(item \<in> set (config_keys f) \<longrightarrow>
            FeatProxy_getattr i f item =
              Inr (Plain (case inst_config f i item of
                            Some v \<Rightarrow> v
                          | None \<Rightarrow> class_value f item)))
       \<and> (item \<notin> set (config_keys f) \<longrightarrow>
            (\<forall>out. members f item = Some out \<longrightarrow>
               FeatProxy_getattr i f item =
                 (if callable out then Inr (Partial out i) else Inr (Plain out)))
          \<and> (members f item = None \<longrightarrow>
               FeatProxy_getattr i f item =
                 Inl (AttributeError ''Cannot get %s in %s. Invalid Feat method, property or modifier''
                        item (name f))))
       \<and> (item \<in> set (config_keys d) \<longrightarrow>
            DictFeatProxy_getattr i d item =
              Inr (Plain (case inst_config d i item of
                            Some v \<Rightarrow> v
                          | None \<Rightarrow> class_value d item)))
       \<and> (item \<notin> set (config_keys d) \<longrightarrow>
            (\<forall>out. members d item = Some out \<longrightarrow>
               DictFeatProxy_getattr i d item =
                 (if callable out then Inr (Partial out i) else Inr (Plain out)))
          \<and> (members d item = None \<longrightarrow>
               DictFeatProxy_getattr i d item =
                 Inl (AttributeError ''Cannot get %s in %s. Invalid DictFeat method, property or modifier''
                        item (name d))))"
  by (auto simp: FeatProxy_getattr_def DictFeatProxy_getattr_def config_get_def split: option.splits)

theorem proxy_getattr_dispatch_witness:
  "FeatProxy_getattr (1::nat) example_feat ''units'' = Inr (Plain (PyStr ''V''))
   \<and> FeatProxy_getattr (1::nat) example_feat ''rebuild'' = Inr (Partial (PyFunc ''rebuild'') 1)
   \<and> FeatProxy_getattr (1::nat) example_feat ''_storage_ns'' = Inr (Plain (PyStr ''feat''))
   \<and> FeatProxy_getattr (1::nat) example_feat ''bogus'' =
       Inl (AttributeError ''Cannot get %s in %s. Invalid Feat method, property or modifier'' ''bogus'' [])
   \<and> DictFeatProxy_getattr (1::nat) example_dictfeat ''units'' = Inr (Plain (PyStr ''V''))
   \<and> DictFeatProxy_getattr (1::nat) example_dictfeat ''build_subproperty'' =
       Inr (Partial (PyFunc ''build_subproperty'') 1)
   \<and> DictFeatProxy_getattr (1::nat) example_dictfeat ''_storage_ns'' = Inr (Plain (PyStr ''dictfeat''))
   \<and> DictFeatProxy_getattr (1::nat) example_dictfeat ''bogus'' =
       Inl (AttributeError ''Cannot get %s in %s. Invalid DictFeat method, property or modifier''
              ''bogus'' ''gain'')"
proof -
  have k: "''units'' \<in> set (config_keys example_feat)" "''rebuild'' \<notin> set (config_keys example_feat)"
    "''_storage_ns'' \<notin> set (config_keys example_feat)" "''bogus'' \<notin> set (config_keys example_feat)"
    "''units'' \<in> set (config_keys example_dictfeat)"
    "''build_subproperty'' \<notin> set (config_keys example_dictfeat)"
    "''_storage_ns'' \<notin> set (config_keys example_dictfeat)"
    "''bogus'' \<notin> set (config_keys example_dictfeat)"
    by (simp_all add: config_keys_def modifier_keys_def example_feat_def Feat_def example_dictfeat_def)
  have m: "members example_feat ''rebuild'' = Some (PyFunc ''rebuild'')"
    "members example_feat ''_storage_ns'' = Some (PyStr ''feat'')"
    "members example_feat ''bogus'' = None"
    "members example_dictfeat ''build_subproperty'' = Some (PyFunc ''build_subproperty'')"
    "members example_dictfeat ''_storage_ns'' = Some (PyStr ''dictfeat'')"
    "members example_dictfeat ''bogus'' = None"
    "inst_config example_feat 1 ''units'' = None" "inst_config example_dictfeat 1 ''units'' = None"
    "name example_feat = []" "name example_dictfeat = ''gain''"
    "class_value example_feat ''units'' = PyStr ''V''"
    "class_value example_dictfeat ''units'' = PyStr ''V''"
    by (simp_all add: example_feat_def Feat_def example_dictfeat_def class_value_def dict_of_def)
  note d = proxy_getattr_dispatch [where f = example_feat and d = example_dictfeat and i = 1]
  from k m d [where item = "''units''"]
  have r1: "FeatProxy_getattr (1::nat) example_feat ''units'' = Inr (Plain (PyStr ''V''))"
    "DictFeatProxy_getattr (1::nat) example_dictfeat ''units'' = Inr (Plain (PyStr ''V''))"
    by simp_all
  from k m d [where item = "''rebuild''"]
  have r2: "FeatProxy_getattr (1::nat) example_feat ''rebuild'' = Inr (Partial (PyFunc ''rebuild'') 1)"
    by simp
  from k m d [where item = "''build_subproperty''"]
  have r3: "DictFeatProxy_getattr (1::nat) example_dictfeat ''build_subproperty'' =
       Inr (Partial (PyFunc ''build_subproperty'') 1)"
    by simp
  from k m d [where item = "''_storage_ns''"]
  have r4: "FeatProxy_getattr (1::nat) example_feat ''_storage_ns'' = Inr (Plain (PyStr ''feat''))"
    "DictFeatProxy_getattr (1::nat) example_dictfeat ''_storage_ns'' = Inr (Plain (PyStr ''dictfeat''))"
    by simp_all
  from k m d [where item = "''bogus''"]
  have r5: "FeatProxy_getattr (1::nat) example_feat ''bogus'' =
       Inl (AttributeError ''Cannot get %s in %s. Invalid Feat method, property or modifier'' ''bogus'' [])"
    "DictFeatProxy_getattr (1::nat) example_dictfeat ''bogus'' =
       Inl (AttributeError ''Cannot get %s in %s. Invalid DictFeat method, property or modifier''
              ''bogus'' ''gain'')"
    by simp_all
  show ?thesis
    unfolding r1 r2 r3 r4 r5 by simp
qed

section \<open>Materializing a sub-descriptor\<close>

lemma fold_upd_map:
  "fold (\<lambda>(k, v) m. m(k \<mapsto> v)) (map (\<lambda>k. (k, g k)) ks) m k' =
     (if k' \<in> set ks then Some (g k') else m k')"
  by (induction ks arbitrary: m) auto

lemma dict_of_config_iter:
  "dict_of (config_iter self instance) k =
     (if k \<in> set (config_keys self) then Some (config_get self instance k) else None)"
  by (simp add: dict_of_def config_iter_def fold_upd_map)

text \<open>
  Claim C8.  \<^verbatim>\<open>DictFeat.build_subproperty\<close> returns a fresh \<^verbatim>\<open>Feat\<close> whose raw
  getter and setter are the accessors it was given (the caller has bound the
  key into them) and whose five modifiers are, at class level and therefore
  for every scope of the new descriptor, the values that the indexed
  descriptor holds for the requested scope at that moment.
\<close>

theorem build_subproperty_clones_modifiers:
  fixes self :: "('k, 'i) dictfeat"
  assumes "key \<in> set modifier_keys"
  shows "fget (build_subproperty base_keys ms self k fget' fset' instance :: 'i feat) = fget'
       \<and> fset (build_subproperty base_keys ms self k fget' fset' instance :: 'i feat) = fset'
       \<and> class_value (build_subproperty base_keys ms self k fget' fset' instance :: 'i feat) key
           = config_get self instance key
       \<and> (\<forall>scope. config_get (build_subproperty base_keys ms self k fget' fset' instance :: 'i feat) scope key
           = config_get self instance key)"
  using assms
  by (auto simp: build_subproperty_def Feat_def Let_def class_value_def config_get_def [where self = "\<lparr>name = _, fget = _, fset = _, base_config_keys = _, class_config = _, inst_config = _, members = _, post_get = _, pre_set = _\<rparr>"]
      dict_of_config_iter config_keys_def split: option.splits)

theorem build_subproperty_clones_modifiers_witness:
  "''units'' \<in> set modifier_keys
   \<and> fget (build_subproperty [''read_once''] Map.empty example_dictfeat (PyStr ''a'')
             (PyFunc ''fget_a'') (PyFunc ''fset_a'') (Some 1) :: nat feat) = PyFunc ''fget_a''
   \<and> fset (build_subproperty [''read_once''] Map.empty example_dictfeat (PyStr ''a'')
             (PyFunc ''fget_a'') (PyFunc ''fset_a'') (Some 1) :: nat feat) = PyFunc ''fset_a''
   \<and> class_value (build_subproperty [''read_once''] Map.empty example_dictfeat (PyStr ''a'')
             (PyFunc ''fget_a'') (PyFunc ''fset_a'') (Some 1) :: nat feat) ''units'' = PyStr ''V''"
proof -
  have k: "''units'' \<in> set modifier_keys"
    by (simp add: modifier_keys_def)
  have g: "config_get example_dictfeat (Some 1) ''units'' = PyStr ''V''"
    by (simp add: config_get_def class_value_def example_dictfeat_def)
  show ?thesis
    using k g
      build_subproperty_clones_modifiers [OF k, of "[''read_once'']" Map.empty example_dictfeat
        "PyStr ''a''" "PyFunc ''fget_a''" "PyFunc ''fset_a''" "Some 1"]
    by simp
qed

section \<open>Modifier changes on an indexed descriptor\<close>

lemma Feat_setattr_Done:
  assumes "key \<in> set modifier_keys" and "Feat_setattr key v sub = Done sub'"
  shows "class_value sub' key = v" and "post_get sub' None \<noteq> None" and "pre_set sub' None \<noteq> None"
proof -
  from assms have r: "rebuild None (config_store sub None key v) = Done sub'"
    by (simp add: Feat_setattr_def Feat_config_set_def Feat_on_config_set_def)
  then obtain gp sp where
    s: "sub' = (config_store sub None key v)
          \<lparr>post_get := (post_get (config_store sub None key v))(None \<mapsto> rev gp),
           pre_set := (pre_set (config_store sub None key v))(None \<mapsto> sp)\<rparr>"
    by (rule rebuild_Done)
  show "class_value sub' key = v" unfolding s by (simp add: class_value_def config_store_def)
  show "post_get sub' None \<noteq> None" unfolding s by simp
  show "pre_set sub' None \<noteq> None" unfolding s by simp
qed

lemma setattr_each_Done:
  "setattr_each key v subs = Done subs' \<Longrightarrow>
     list_all2 (\<lambda>(k, sub) (k', sub'). k' = k \<and> Feat_setattr key v sub = Done sub') subs subs'"
proof (induction subs arbitrary: subs')
  case Nil
  then show ?case by simp
next
  case (Cons a subs)
  obtain k sub where a: "a = (k, sub)" by (cases a)
  from Cons.prems a obtain sub' rest' where
    "Feat_setattr key v sub = Done sub'" "setattr_each key v subs = Done rest'"
    "subs' = (k, sub') # rest'"
    by (auto split: res.splits)
  with Cons.IH a show ?case by simp
qed

text \<open>
  Claim C10.  For a recognized modifier key, \<^verbatim>\<open>DictFeat.on_config_set\<close> assigns
  the new value to every entry of \<^verbatim>\<open>_subproperties\<close>, in order, by the plain
  attribute assignment \<^verbatim>\<open>setattr(subprop, key, value)\<close>: each sub-descriptor
  then holds the value at its class level and has its class-level pipelines
  rebuilt.  The scope on which the change was made takes no part: the handler
  does the same for every scope.
\<close>

theorem DictFeat_on_config_set_reaches_all:
  assumes "key \<in> set modifier_keys"
    and "DictFeat_on_config_set instance key v self = Done self'"
  shows "list_all2
           (\<lambda>(k, sub) (k', sub').
              k' = k \<and> Feat_setattr key v sub = Done sub' \<and> class_value sub' key = v
              \<and> post_get sub' None \<noteq> None \<and> pre_set sub' None \<noteq> None)
           (subproperties self) (subproperties self')
       \<and> (\<forall>scope. DictFeat_on_config_set scope key v self = Done self')"
proof -
  from assms obtain subs where
    e: "setattr_each key v (subproperties self) = Done subs"
    and s: "self' = self\<lparr>subproperties := subs\<rparr>"
    by (auto simp: DictFeat_on_config_set_def split: res.splits)
  from setattr_each_Done [OF e]
  have "list_all2
           (\<lambda>(k, sub) (k', sub').
              k' = k \<and> Feat_setattr key v sub = Done sub' \<and> class_value sub' key = v
              \<and> post_get sub' None \<noteq> None \<and> pre_set sub' None \<noteq> None)
           (subproperties self) subs"
    by (rule list_all2_mono) (auto dest: Feat_setattr_Done [OF assms(1)])
  moreover have "DictFeat_on_config_set scope key v self = Done self'" for scope
    using assms(1) e s by (simp add: DictFeat_on_config_set_def)
  ultimately show ?thesis using s by simp
qed

lemma example_sub_eq:
  "example_sub i =
     \<lparr>name = [], fget = PyFunc ''fget_a'', fset = PyFunc ''fset_a'',
      base_config_keys = [''read_once''],
      class_config = [''values'' \<mapsto> PyNone, ''units'' \<mapsto> PyStr ''V'', ''limits'' \<mapsto> PyNone,
                      ''get_funcs'' \<mapsto> PyNone, ''set_funcs'' \<mapsto> PyNone],
      inst_config = (\<lambda>i. Map.empty), members = Map.empty,
      post_get = Map.empty, pre_set = Map.empty\<rparr>"
  by (simp add: example_sub_def build_subproperty_def Feat_def config_iter_def config_keys_def
      modifier_keys_def dict_of_def config_get_def class_value_def example_dictfeat_def)

lemma example_sub_setattr:
  "Feat_setattr ''units'' (PyStr ''mV'') (example_sub i) =
     Done \<lparr>name = [], fget = PyFunc ''fget_a'', fset = PyFunc ''fset_a'',
      base_config_keys = [''read_once''],
      class_config = [''values'' \<mapsto> PyNone, ''units'' \<mapsto> PyStr ''mV'', ''limits'' \<mapsto> PyNone,
                      ''get_funcs'' \<mapsto> PyNone, ''set_funcs'' \<mapsto> PyNone],
      inst_config = (\<lambda>i. Map.empty), members = Map.empty,
      post_get = [None \<mapsto> [to_quantity_converter (PyStr ''mV'')]],
      pre_set = [None \<mapsto> [to_magnitude_converter (PyStr ''mV'')]]\<rparr>"
  unfolding example_sub_eq
  by (simp add: Feat_setattr_def Feat_config_set_def Feat_on_config_set_def modifier_keys_def
      config_store_def rebuild_def Let_def config_get_def class_value_def rebuild_processors_def
      extend_with_def append_def post_get_iset_def pre_set_iset_def fun_upd_twist)

lemma example_indexed_change:
  "DictFeat_config_set (Some 1) ''units'' (PyStr ''mV'') example_indexed =
     Done (example_indexed\<lparr>
       inst_config := (\<lambda>i. Map.empty)(1 := [''units'' \<mapsto> PyStr ''mV'']),
       subproperties := [((1, ''a''), state_of (Feat_setattr ''units'' (PyStr ''mV'') (example_sub 1))),
                         ((2, ''a''), state_of (Feat_setattr ''units'' (PyStr ''mV'') (example_sub 2)))]\<rparr>)"
  by (simp add: DictFeat_config_set_def DictFeat_on_config_set_def modifier_keys_def
      example_indexed_def config_store_def example_sub_setattr example_dictfeat_def)

theorem DictFeat_on_config_set_reaches_all_witness:
  "''units'' \<in> set modifier_keys
   \<and> DictFeat_on_config_set (Some 1) ''units'' (PyStr ''mV'') example_indexed =
       Done (example_indexed\<lparr>subproperties :=
         [((1, ''a''), state_of (Feat_setattr ''units'' (PyStr ''mV'') (example_sub 1))),
          ((2, ''a''), state_of (Feat_setattr ''units'' (PyStr ''mV'') (example_sub 2)))]\<rparr>)
   \<and> DictFeat_on_config_set None ''units'' (PyStr ''mV'') example_indexed =
       DictFeat_on_config_set (Some 1) ''units'' (PyStr ''mV'') example_indexed
   \<and> class_value (state_of (Feat_setattr ''units'' (PyStr ''mV'') (example_sub 2))) ''units'' = PyStr ''mV''"
proof -
  have k: "''units'' \<in> set modifier_keys"
    by (simp add: modifier_keys_def)
  have d: "DictFeat_on_config_set (Some 1) ''units'' (PyStr ''mV'') example_indexed =
       Done (example_indexed\<lparr>subproperties :=
         [((1, ''a''), state_of (Feat_setattr ''units'' (PyStr ''mV'') (example_sub 1))),
          ((2, ''a''), state_of (Feat_setattr ''units'' (PyStr ''mV'') (example_sub 2)))]\<rparr>)"
    by (simp add: DictFeat_on_config_set_def modifier_keys_def example_indexed_def example_sub_setattr)
  from DictFeat_on_config_set_reaches_all [OF k d] show ?thesis
    using k d by (simp add: example_indexed_def)
qed

text \<open>
  Claim C3, at a failing input.  An indexed descriptor has one materialized
  sub-descriptor for instance 1 and one for instance 2, both with units
  \<^verbatim>\<open>'V'\<close>.  Setting \<^verbatim>\<open>units = 'mV'\<close> on the scope of instance 1 stores the override
  for instance 1 in the indexed descriptor, and then assigns \<^verbatim>\<open>'mV'\<close> at class
  level to both sub-descriptors: the sub-descriptor of instance 2 now answers
  \<^verbatim>\<open>'mV'\<close> for instance 2 and carries pipelines rebuilt for \<^verbatim>\<open>'mV'\<close>, while the
  indexed descriptor itself still answers \<^verbatim>\<open>'V'\<close> for instance 2.
\<close>

theorem DictFeat_instance_change_leaks:
  "map (\<lambda>(k, sub). (k, config_get sub (Some 2) ''units'', post_get sub None))
     (subproperties example_indexed)
     = [((1, ''a''), PyStr ''V'', None), ((2, ''a''), PyStr ''V'', None)]
   \<and> map (\<lambda>(k, sub). (k, config_get sub (Some 2) ''units'', post_get sub None))
       (subproperties (state_of (DictFeat_config_set (Some 1) ''units'' (PyStr ''mV'') example_indexed)))
     = [((1, ''a''), PyStr ''mV'', Some [to_quantity_converter (PyStr ''mV'')]),
        ((2, ''a''), PyStr ''mV'', Some [to_quantity_converter (PyStr ''mV'')])]
   \<and> config_get (state_of (DictFeat_config_set (Some 1) ''units'' (PyStr ''mV'') example_indexed))
        (Some 2) ''units'' = PyStr ''V''
   \<and> config_get (state_of (DictFeat_config_set (Some 1) ''units'' (PyStr ''mV'') example_indexed))
        (Some 1) ''units'' = PyStr ''mV''"
  unfolding example_indexed_change
  by (simp add: example_sub_setattr)
    (simp add: example_indexed_def example_sub_eq config_get_def class_value_def example_dictfeat_def)

section \<open>Binding and the class registries\<close>

lemma register_descriptor_Inr:
  assumes "register_descriptor attr w owner nm self = Inr w'"
  shows "\<exists>k r. classes w owner = Some k \<and> class_registry w' owner attr = Some r
           \<and> lantz_driver_cls r = Some (qualname k) \<and> entries r nm = Some self"
proof -
  from assms obtain k d where k: "classes w owner = Some k"
    and d: "class_registry w owner attr = Some d"
    by (auto simp: register_descriptor_def split: option.splits)
  from d obtain r where r: "class_getattr w owner attr = Some r" "r < length (registries w)"
    "registries w ! r = d"
    by (auto simp: class_registry_def split: option.splits if_splits)
  show ?thesis
  proof (cases "lantz_driver_cls d = Some (qualname k)")
    case True
    with assms k d r have "w' = w\<lparr>registries := (registries w)[r := d\<lparr>entries := (entries d)(nm \<mapsto> self)\<rparr>]\<rparr>"
      by (simp add: register_descriptor_def)
    with k r True show ?thesis
      by (simp add: class_registry_def class_getattr_def)
  next
    case False
    let ?a = "length (registries w)"
    let ?d' = "\<lparr>lantz_driver_cls = Some (qualname k), entries = entries d\<rparr>"
    let ?w1 = "w\<lparr>registries := registries w @ [?d'],
                  classes := (classes w)(owner \<mapsto> k\<lparr>own_attrs := (own_attrs k)(attr \<mapsto> ?a)\<rparr>)\<rparr>"
    have g: "class_getattr ?w1 owner attr = Some ?a"
      by (simp add: class_getattr_def)
    with assms k d False
    have "w' = ?w1\<lparr>registries := (registries ?w1)[?a := (registries ?w1 ! ?a)
                     \<lparr>entries := (entries (registries ?w1 ! ?a))(nm \<mapsto> self)\<rparr>]\<rparr>"
      by (simp add: register_descriptor_def Let_def)
    with k show ?thesis
      by (simp add: class_registry_def class_getattr_def)
  qed
qed

lemma register_descriptor_objects:
  assumes "register_descriptor attr w owner nm self = Inr w'"
  shows "feats w' = feats w" and "dictfeats w' = dictfeats w"
  using assms
  by (auto simp: register_descriptor_def Let_def split: option.splits if_splits)

lemma find_attr_other:
  "owner \<notin> set cl \<Longrightarrow> find_attr (cs(owner \<mapsto> k')) cl a = find_attr cs cl a"
  by (induction cl) (auto split: option.splits)

text \<open>
  What the fork achieves when the tag differs from the owner's qualified
  name: a class other than the owner, with the owner not among its ancestors,
  sees the registry it saw before, unchanged.
\<close>

lemma register_descriptor_fork_isolates:
  assumes reg: "register_descriptor attr w owner nm self = Inr w'"
    and k: "classes w owner = Some k"
    and d: "class_registry w owner attr = Some d"
    and tag: "lantz_driver_cls d \<noteq> Some (qualname k)"
    and c: "classes w c = Some kc" "c \<noteq> owner" "owner \<notin> set (ancestors kc)"
    and dc: "class_registry w c attr = Some dc"
  shows "class_registry w' c attr = Some dc"
proof -
  let ?a = "length (registries w)"
  let ?d' = "\<lparr>lantz_driver_cls = Some (qualname k), entries = entries d\<rparr>"
  let ?k' = "k\<lparr>own_attrs := (own_attrs k)(attr \<mapsto> ?a)\<rparr>"
  let ?w1 = "w\<lparr>registries := registries w @ [?d'], classes := (classes w)(owner \<mapsto> ?k')\<rparr>"
  have g: "class_getattr ?w1 owner attr = Some ?a"
    by (simp add: class_getattr_def)
  with reg k d tag
  have w': "w' = ?w1\<lparr>registries := (registries ?w1)[?a := (registries ?w1 ! ?a)
                     \<lparr>entries := (entries (registries ?w1 ! ?a))(nm \<mapsto> self)\<rparr>]\<rparr>"
    by (simp add: register_descriptor_def Let_def)
  from c have l: "class_getattr w' c attr = class_getattr w c attr"
    unfolding w' by (simp add: class_getattr_def find_attr_other split: option.splits)
  from dc obtain r where r: "class_getattr w c attr = Some r" "r < length (registries w)"
    "registries w ! r = dc"
    by (auto simp: class_registry_def split: option.splits if_splits)
  then show ?thesis
    unfolding class_registry_def l
    by (simp add: w' nth_append)
qed

lemma register_descriptor_exact:
  assumes "register_descriptor attr w owner nm self = Inr w'"
  shows "\<exists>k a reg. classes w owner = Some k \<and> class_getattr w owner attr = Some a
           \<and> a < length (registries w) \<and> registries w ! a = reg
           \<and> (if lantz_driver_cls reg \<noteq> Some (qualname k)
               then w' = w\<lparr>registries := registries w
                              @ [\<lparr>lantz_driver_cls = Some (qualname k),
                                  entries = (entries reg)(nm \<mapsto> self)\<rparr>],
                            classes := (classes w)(owner \<mapsto>
                              k\<lparr>own_attrs := (own_attrs k)(attr \<mapsto> length (registries w))\<rparr>)\<rparr>
               else w' = w\<lparr>registries := (registries w)
                              [a := reg\<lparr>entries := (entries reg)(nm \<mapsto> self)\<rparr>]\<rparr>)"
proof -
  from assms obtain k d where k: "classes w owner = Some k"
    and d: "class_registry w owner attr = Some d"
    by (auto simp: register_descriptor_def split: option.splits)
  from d obtain r where r: "class_getattr w owner attr = Some r" "r < length (registries w)"
    "registries w ! r = d"
    by (auto simp: class_registry_def split: option.splits if_splits)
  show ?thesis
  proof (cases "lantz_driver_cls d = Some (qualname k)")
    case True
    with assms k d r have "w' = w\<lparr>registries := (registries w)[r := d\<lparr>entries := (entries d)(nm \<mapsto> self)\<rparr>]\<rparr>"
      by (simp add: register_descriptor_def)
    with k r True show ?thesis by simp
  next
    case False
    let ?a = "length (registries w)"
    let ?d' = "\<lparr>lantz_driver_cls = Some (qualname k), entries = entries d\<rparr>"
    let ?w1 = "w\<lparr>registries := registries w @ [?d'],
                  classes := (classes w)(owner \<mapsto> k\<lparr>own_attrs := (own_attrs k)(attr \<mapsto> ?a)\<rparr>)\<rparr>"
    have g: "class_getattr ?w1 owner attr = Some ?a"
      by (simp add: class_getattr_def)
    with assms k d False
    have "w' = ?w1\<lparr>registries := (registries ?w1)[?a := (registries ?w1 ! ?a)
                     \<lparr>entries := (entries (registries ?w1 ! ?a))(nm \<mapsto> self)\<rparr>]\<rparr>"
      by (simp add: register_descriptor_def Let_def)
    then have "w' = w\<lparr>registries := registries w
                              @ [\<lparr>lantz_driver_cls = Some (qualname k),
                                  entries = (entries d)(nm \<mapsto> self)\<rparr>],
                            classes := (classes w)(owner \<mapsto>
                              k\<lparr>own_attrs := (own_attrs k)(attr \<mapsto> length (registries w))\<rparr>)\<rparr>"
      by simp
    with k r False show ?thesis by simp
  qed
qed

lemma find_attr_other_attr:
  "cs owner = Some k \<Longrightarrow> b \<noteq> attr \<Longrightarrow>
     find_attr (cs(owner \<mapsto> k\<lparr>own_attrs := (own_attrs k)(attr \<mapsto> x)\<rparr>)) cl b = find_attr cs cl b"
  by (induction cl) (auto split: option.splits)

lemma register_descriptor_other_attr:
  assumes "register_descriptor attr w owner nm self = Inr w'" and "b \<noteq> attr"
  shows "class_getattr w' c b = class_getattr w c b"
proof -
  from register_descriptor_exact [OF assms(1)] obtain k a reg where
    k: "classes w owner = Some k"
    and w': "if lantz_driver_cls reg \<noteq> Some (qualname k)
               then w' = w\<lparr>registries := registries w
                              @ [\<lparr>lantz_driver_cls = Some (qualname k),
                                  entries = (entries reg)(nm \<mapsto> self)\<rparr>],
                            classes := (classes w)(owner \<mapsto>
                              k\<lparr>own_attrs := (own_attrs k)(attr \<mapsto> length (registries w))\<rparr>)\<rparr>
               else w' = w\<lparr>registries := (registries w)
                              [a := reg\<lparr>entries := (entries reg)(nm \<mapsto> self)\<rparr>]\<rparr>"
    by blast
  show ?thesis
  proof (cases "lantz_driver_cls reg \<noteq> Some (qualname k)")
    case True
    with w' have c: "classes w' = (classes w)(owner \<mapsto>
                              k\<lparr>own_attrs := (own_attrs k)(attr \<mapsto> length (registries w))\<rparr>)"
      by simp
    show ?thesis
      unfolding class_getattr_def c
      using k assms(2) by (auto simp: find_attr_other_attr split: option.splits)
  next
    case False
    with w' show ?thesis by (auto simp: class_getattr_def split: option.splits)
  qed
qed

lemma class_getattr_dictfeats_update:
  "class_getattr (w\<lparr>dictfeats := x\<rparr>) c b = class_getattr w c b"
  by (auto simp: class_getattr_def split: option.splits)

text \<open>
  Claim C9.  \<^verbatim>\<open>DictFeat.__set_name__\<close> forks and tags the registry
  \<^verbatim>\<open>_lantz_dictfeats\<close> and registers the descriptor under the name, and does
  nothing else.  When the registry that the owner sees is not tagged with the
  owner's qualified name, a new registry object is created that holds the
  entries of the old one and the new entry and carries the owner's tag, the
  owner's own \<^verbatim>\<open>_lantz_dictfeats\<close> is bound to it, and every registry object
  that existed before is as it was; otherwise the entry is stored in the
  registry that the owner sees and no class changes.  Either way the
  registries \<^verbatim>\<open>_lantz_feats\<close> that the classes see stay the same, no \<^verbatim>\<open>Feat\<close>
  changes, and the \<^verbatim>\<open>DictFeat\<close> changes in its name only: nothing is rebuilt,
  and its sub-descriptors, which are the only holders of pipelines on an
  indexed descriptor, are untouched.  \<^verbatim>\<open>Feat.__set_name__\<close>, in contrast,
  leaves the descriptor it binds, a materialized sub-descriptor included, with
  class-level read and write pipelines.
\<close>

theorem DictFeat_set_name_registers_only:
  assumes "DictFeat_set_name w self owner nm = Done w'"
  shows "\<exists>d k a reg.
       dictfeats w self = Some d \<and> classes w owner = Some k
     \<and> class_getattr w owner ''_lantz_dictfeats'' = Some a
     \<and> a < length (registries w) \<and> registries w ! a = reg
     \<and> feats w' = feats w
     \<and> dictfeats w' = (dictfeats w)(self \<mapsto> d\<lparr>name := nm\<rparr>)
     \<and> (if lantz_driver_cls reg \<noteq> Some (qualname k)
         then registries w' = registries w
                @ [\<lparr>lantz_driver_cls = Some (qualname k), entries = (entries reg)(nm \<mapsto> self)\<rparr>]
            \<and> classes w' = (classes w)(owner \<mapsto>
                  k\<lparr>own_attrs := (own_attrs k)(''_lantz_dictfeats'' \<mapsto> length (registries w))\<rparr>)
         else registries w' = (registries w)[a := reg\<lparr>entries := (entries reg)(nm \<mapsto> self)\<rparr>]
            \<and> classes w' = classes w)
     \<and> (\<exists>r. class_registry w' owner ''_lantz_dictfeats'' = Some r
            \<and> lantz_driver_cls r = Some (qualname k) \<and> entries r nm = Some self)
     \<and> (\<forall>c kc dc. lantz_driver_cls reg \<noteq> Some (qualname k) \<longrightarrow>
            classes w c = Some kc \<longrightarrow> c \<noteq> owner \<longrightarrow> owner \<notin> set (ancestors kc) \<longrightarrow>
            class_registry w c ''_lantz_dictfeats'' = Some dc \<longrightarrow>
            class_registry w' c ''_lantz_dictfeats'' = Some dc)
     \<and> (\<forall>c. class_getattr w' c ''_lantz_feats'' = class_getattr w c ''_lantz_feats'')
     \<and> (\<forall>fa w2. Feat_set_name w fa owner nm = Done w2 \<longrightarrow>
            (\<exists>f'. feats w2 fa = Some f' \<and> post_get f' None \<noteq> None \<and> pre_set f' None \<noteq> None))"
proof -
  from assms obtain d where d: "dictfeats w self = Some d"
    and r: "register_descriptor ''_lantz_dictfeats''
              (w\<lparr>dictfeats := (dictfeats w)(self \<mapsto> d\<lparr>name := nm\<rparr>)\<rparr>) owner nm self = Inr w'"
    by (auto simp: DictFeat_set_name_def Let_def split: option.splits sum.splits)
  let ?w0 = "w\<lparr>dictfeats := (dictfeats w)(self \<mapsto> d\<lparr>name := nm\<rparr>)\<rparr>"
  from register_descriptor_objects [OF r]
  have o: "feats w' = feats w" "dictfeats w' = (dictfeats w)(self \<mapsto> d\<lparr>name := nm\<rparr>)"
    by simp_all
  from register_descriptor_exact [OF r] obtain k a reg where
    k: "classes w owner = Some k"
    and a: "class_getattr ?w0 owner ''_lantz_dictfeats'' = Some a" "a < length (registries w)"
      "registries w ! a = reg"
    and x: "if lantz_driver_cls reg \<noteq> Some (qualname k)
               then w' = ?w0\<lparr>registries := registries ?w0
                              @ [\<lparr>lantz_driver_cls = Some (qualname k),
                                  entries = (entries reg)(nm \<mapsto> self)\<rparr>],
                            classes := (classes ?w0)(owner \<mapsto>
                              k\<lparr>own_attrs := (own_attrs k)(''_lantz_dictfeats'' \<mapsto> length (registries ?w0))\<rparr>)\<rparr>
               else w' = ?w0\<lparr>registries := (registries ?w0)
                              [a := reg\<lparr>entries := (entries reg)(nm \<mapsto> self)\<rparr>]\<rparr>"
    by auto
  from a(1) have a1: "class_getattr w owner ''_lantz_dictfeats'' = Some a"
    by (simp add: class_getattr_dictfeats_update)
  from x have y: "if lantz_driver_cls reg \<noteq> Some (qualname k)
         then registries w' = registries w
                @ [\<lparr>lantz_driver_cls = Some (qualname k), entries = (entries reg)(nm \<mapsto> self)\<rparr>]
            \<and> classes w' = (classes w)(owner \<mapsto>
                  k\<lparr>own_attrs := (own_attrs k)(''_lantz_dictfeats'' \<mapsto> length (registries w))\<rparr>)
         else registries w' = (registries w)[a := reg\<lparr>entries := (entries reg)(nm \<mapsto> self)\<rparr>]
            \<and> classes w' = classes w"
    by (auto split: if_splits)
  from register_descriptor_Inr [OF r] k
  have g: "\<exists>r. class_registry w' owner ''_lantz_dictfeats'' = Some r
            \<and> lantz_driver_cls r = Some (qualname k) \<and> entries r nm = Some self"
    by auto
  have fr: "class_getattr w' c ''_lantz_feats'' = class_getattr w c ''_lantz_feats''" for c
    using register_descriptor_other_attr [OF r, of "''_lantz_feats''" c]
    by (simp add: class_getattr_dictfeats_update)
  have ft: "\<exists>f'. feats w2 fa = Some f' \<and> post_get f' None \<noteq> None \<and> pre_set f' None \<noteq> None"
    if "Feat_set_name w fa owner nm = Done w2" for fa w2
  proof -
    from that obtain f w1 f' where "rebuild None (f\<lparr>name := nm\<rparr>) = Done f'"
      and w2: "w2 = w1\<lparr>feats := (feats w1)(fa \<mapsto> f')\<rparr>"
      by (auto simp: Feat_set_name_def Let_def split: option.splits sum.splits res.splits)
    from this(1) obtain gp sp where
      "f' = (f\<lparr>name := nm\<rparr>)\<lparr>post_get := (post_get (f\<lparr>name := nm\<rparr>))(None \<mapsto> rev gp),
                                pre_set := (pre_set (f\<lparr>name := nm\<rparr>))(None \<mapsto> sp)\<rparr>"
      by (rule rebuild_Done)
    with w2 show ?thesis by simp
  qed
  have cr: "class_registry ?w0 c b = class_registry w c b" for c b
    by (simp add: class_registry_def class_getattr_dictfeats_update split: option.splits)
  have iso: "class_registry w' c ''_lantz_dictfeats'' = Some dc"
    if "lantz_driver_cls reg \<noteq> Some (qualname k)" "classes w c = Some kc" "c \<noteq> owner"
      "owner \<notin> set (ancestors kc)" "class_registry w c ''_lantz_dictfeats'' = Some dc"
    for c kc dc
  proof -
    from a1 a(2,3) have reg: "class_registry ?w0 owner ''_lantz_dictfeats'' = Some reg"
      unfolding cr by (simp add: class_registry_def)
    show ?thesis
    proof (rule register_descriptor_fork_isolates [OF r])
      show "classes ?w0 owner = Some k" using k by simp
      show "class_registry ?w0 owner ''_lantz_dictfeats'' = Some reg" by (rule reg)
      show "lantz_driver_cls reg \<noteq> Some (qualname k)" by (rule that(1))
      show "classes ?w0 c = Some kc" using that(2) by simp
      show "c \<noteq> owner" by (rule that(3))
      show "owner \<notin> set (ancestors kc)" by (rule that(4))
      show "class_registry ?w0 c ''_lantz_dictfeats'' = Some dc" using that(5) by (simp add: cr)
    qed
  qed
  from d k a1 a(2,3) o y g iso fr ft show ?thesis by blast
qed

lemma example_world_bind_dictfeat:
  "\<exists>w'. DictFeat_set_name example_world 20 1 ''gain'' = Done w'"
  by (simp add: DictFeat_set_name_def register_descriptor_def class_registry_def class_getattr_def
      example_world_def Let_def)

lemma example_world_bound_bind_dictfeat:
  "\<exists>w3. DictFeat_set_name example_world_bound 20 1 ''offset'' = Done w3"
  by (simp add: DictFeat_set_name_def register_descriptor_def class_registry_def class_getattr_def
      example_world_bound_def example_world_def Let_def)

lemma example_world_bind_sub:
  "\<exists>w2. Feat_set_name example_world 11 1 ''gain'' = Done w2"
  by (simp add: Feat_set_name_def register_descriptor_def class_registry_def class_getattr_def
      example_world_def Let_def example_sub_eq rebuild_def config_get_def class_value_def
      rebuild_processors_def extend_with_def append_def)

theorem DictFeat_set_name_registers_only_witness:
  "\<exists>w' w2 w3. DictFeat_set_name example_world 20 1 ''gain'' = Done w'
        \<and> feats w' = feats example_world
        \<and> dictfeats w' 20 = Some example_dictfeat
        \<and> registries w' =
            [\<lparr>lantz_driver_cls = None, entries = Map.empty\<rparr>,
             \<lparr>lantz_driver_cls = None, entries = Map.empty\<rparr>,
             \<lparr>lantz_driver_cls = Some ''Scope'', entries = [''gain'' \<mapsto> 10]\<rparr>,
             \<lparr>lantz_driver_cls = Some ''Scope'', entries = [''gain'' \<mapsto> 20]\<rparr>]
        \<and> class_getattr example_world 1 ''_lantz_dictfeats'' = Some 1
        \<and> class_getattr w' 1 ''_lantz_dictfeats'' = Some 3
        \<and> class_getattr w' 0 ''_lantz_dictfeats'' = Some 1
        \<and> class_getattr w' 1 ''_lantz_feats'' = Some 2
        \<and> Feat_set_name example_world 11 1 ''gain'' = Done w2
        \<and> feats example_world 11 = Some (example_sub 1)
        \<and> post_get (example_sub 1) None = None
        \<and> (\<exists>f'. feats w2 11 = Some f' \<and> post_get f' None \<noteq> None \<and> pre_set f' None \<noteq> None)
        \<and> DictFeat_set_name example_world_bound 20 1 ''offset'' = Done w3
        \<and> classes w3 = classes example_world_bound
        \<and> registries w3 =
            [\<lparr>lantz_driver_cls = None, entries = Map.empty\<rparr>,
             \<lparr>lantz_driver_cls = None, entries = Map.empty\<rparr>,
             \<lparr>lantz_driver_cls = Some ''Scope'', entries = [''gain'' \<mapsto> 10]\<rparr>,
             \<lparr>lantz_driver_cls = Some ''Scope'', entries = [''gain'' \<mapsto> 20, ''offset'' \<mapsto> 20]\<rparr>]"
proof -
  from example_world_bound_bind_dictfeat obtain w3 where
    w3: "DictFeat_set_name example_world_bound 20 1 ''offset'' = Done w3" ..
  have qb: "classes example_world_bound 1 =
             Some \<lparr>qualname = ''Scope'', ancestors = [0],
                   own_attrs = [''_lantz_feats'' \<mapsto> 2, ''_lantz_dictfeats'' \<mapsto> 3]\<rparr>"
    "class_getattr example_world_bound 1 ''_lantz_dictfeats'' = Some 3"
    "registries example_world_bound =
       [\<lparr>lantz_driver_cls = None, entries = Map.empty\<rparr>,
        \<lparr>lantz_driver_cls = None, entries = Map.empty\<rparr>,
        \<lparr>lantz_driver_cls = Some ''Scope'', entries = [''gain'' \<mapsto> 10]\<rparr>,
        \<lparr>lantz_driver_cls = Some ''Scope'', entries = [''gain'' \<mapsto> 20]\<rparr>]"
    by (simp_all add: example_world_bound_def example_world_def class_getattr_def)
  from DictFeat_set_name_registers_only [OF w3] obtain kb ab regb where
    tb: "classes example_world_bound 1 = Some kb"
      "class_getattr example_world_bound 1 ''_lantz_dictfeats'' = Some ab"
      "registries example_world_bound ! ab = regb"
      "if lantz_driver_cls regb \<noteq> Some (qualname kb)
         then registries w3 = registries example_world_bound
                @ [\<lparr>lantz_driver_cls = Some (qualname kb), entries = (entries regb)(''offset'' \<mapsto> 20)\<rparr>]
            \<and> classes w3 = (classes example_world_bound)(1 \<mapsto>
                  kb\<lparr>own_attrs := (own_attrs kb)(''_lantz_dictfeats'' \<mapsto> length (registries example_world_bound))\<rparr>)
         else registries w3 = (registries example_world_bound)[ab := regb\<lparr>entries := (entries regb)(''offset'' \<mapsto> 20)\<rparr>]
            \<and> classes w3 = classes example_world_bound"
    by blast
  from tb(1,2,3) qb have eb:
    "kb = \<lparr>qualname = ''Scope'', ancestors = [0],
            own_attrs = [''_lantz_feats'' \<mapsto> 2, ''_lantz_dictfeats'' \<mapsto> 3]\<rparr>"
    "ab = 3" "regb = \<lparr>lantz_driver_cls = Some ''Scope'', entries = [''gain'' \<mapsto> 20]\<rparr>"
    by simp_all
  from tb(4) have nb: "classes w3 = classes example_world_bound"
    "registries w3 =
            [\<lparr>lantz_driver_cls = None, entries = Map.empty\<rparr>,
             \<lparr>lantz_driver_cls = None, entries = Map.empty\<rparr>,
             \<lparr>lantz_driver_cls = Some ''Scope'', entries = [''gain'' \<mapsto> 10]\<rparr>,
             \<lparr>lantz_driver_cls = Some ''Scope'', entries = [''gain'' \<mapsto> 20, ''offset'' \<mapsto> 20]\<rparr>]"
    unfolding eb qb by simp_all
  from example_world_bind_dictfeat obtain w' where
    w': "DictFeat_set_name example_world 20 1 ''gain'' = Done w'" ..
  from example_world_bind_sub obtain w2 where
    w2: "Feat_set_name example_world 11 1 ''gain'' = Done w2" ..
  have q: "classes example_world 1 =
             Some \<lparr>qualname = ''Scope'', ancestors = [0], own_attrs = [''_lantz_feats'' \<mapsto> 2]\<rparr>"
    "classes example_world 0 =
             Some \<lparr>qualname = ''Driver'', ancestors = [],
                   own_attrs = [''_lantz_feats'' \<mapsto> 0, ''_lantz_dictfeats'' \<mapsto> 1]\<rparr>"
    "dictfeats example_world 20 = Some example_dictfeat"
    "example_dictfeat\<lparr>name := ''gain''\<rparr> = example_dictfeat"
    "class_getattr example_world 1 ''_lantz_dictfeats'' = Some 1"
    "class_getattr example_world 1 ''_lantz_feats'' = Some 2"
    "registries example_world =
       [\<lparr>lantz_driver_cls = None, entries = Map.empty\<rparr>,
        \<lparr>lantz_driver_cls = None, entries = Map.empty\<rparr>,
        \<lparr>lantz_driver_cls = Some ''Scope'', entries = [''gain'' \<mapsto> 10]\<rparr>]"
    "feats example_world 11 = Some (example_sub 1)"
    "post_get (example_sub 1) None = None"
    by (simp_all add: example_world_def example_dictfeat_def class_getattr_def example_sub_eq)
  from DictFeat_set_name_registers_only [OF w'] obtain d k a reg where
    t: "dictfeats example_world 20 = Some d" "classes example_world 1 = Some k"
      "class_getattr example_world 1 ''_lantz_dictfeats'' = Some a"
      "registries example_world ! a = reg"
      "feats w' = feats example_world"
      "dictfeats w' = (dictfeats example_world)(20 \<mapsto> d\<lparr>name := ''gain''\<rparr>)"
      "if lantz_driver_cls reg \<noteq> Some (qualname k)
         then registries w' = registries example_world
                @ [\<lparr>lantz_driver_cls = Some (qualname k), entries = (entries reg)(''gain'' \<mapsto> 20)\<rparr>]
            \<and> classes w' = (classes example_world)(1 \<mapsto>
                  k\<lparr>own_attrs := (own_attrs k)(''_lantz_dictfeats'' \<mapsto> length (registries example_world))\<rparr>)
         else registries w' = (registries example_world)[a := reg\<lparr>entries := (entries reg)(''gain'' \<mapsto> 20)\<rparr>]
            \<and> classes w' = classes example_world"
      "\<forall>c. class_getattr w' c ''_lantz_feats'' = class_getattr example_world c ''_lantz_feats''"
      "\<forall>fa w2. Feat_set_name example_world fa 1 ''gain'' = Done w2 \<longrightarrow>
            (\<exists>f'. feats w2 fa = Some f' \<and> post_get f' None \<noteq> None \<and> pre_set f' None \<noteq> None)"
    by blast
  from t(1,2,3,4) q have e: "d = example_dictfeat"
    "k = \<lparr>qualname = ''Scope'', ancestors = [0], own_attrs = [''_lantz_feats'' \<mapsto> 2]\<rparr>"
    "a = 1" "reg = \<lparr>lantz_driver_cls = None, entries = Map.empty\<rparr>"
    by simp_all
  from t(7) have r: "registries w' =
            [\<lparr>lantz_driver_cls = None, entries = Map.empty\<rparr>,
             \<lparr>lantz_driver_cls = None, entries = Map.empty\<rparr>,
             \<lparr>lantz_driver_cls = Some ''Scope'', entries = [''gain'' \<mapsto> 10]\<rparr>,
             \<lparr>lantz_driver_cls = Some ''Scope'', entries = [''gain'' \<mapsto> 20]\<rparr>]"
    and c: "classes w' = (classes example_world)(1 \<mapsto>
              \<lparr>qualname = ''Scope'', ancestors = [0],
                own_attrs = [''_lantz_feats'' \<mapsto> 2, ''_lantz_dictfeats'' \<mapsto> 3]\<rparr>)"
    unfolding e q by (simp_all add: numeral_3_eq_3)
  from c q have g: "class_getattr w' 1 ''_lantz_dictfeats'' = Some 3"
    "class_getattr w' 0 ''_lantz_dictfeats'' = Some 1"
    by (simp_all add: class_getattr_def)
  from t(8) q have g2: "class_getattr w' 1 ''_lantz_feats'' = Some 2" by simp
  from t(9) w2 have p: "\<exists>f'. feats w2 11 = Some f' \<and> post_get f' None \<noteq> None \<and> pre_set f' None \<noteq> None"
    by blast
  from t(6) e q have df: "dictfeats w' 20 = Some example_dictfeat" by simp
  from w' w2 w3 t(5) df r q(5,8,9) g g2 p nb show ?thesis by blast
qed

text \<open>
  Claim C4, at a failing input.  The class 1 is a driver \<^verbatim>\<open>Scope\<close> whose own
  registry, tagged \<^verbatim>\<open>'Scope'\<close>, holds the descriptor 10 under \<^verbatim>\<open>gain\<close>.  The class
  2 is a subclass of it defined in another module under the same name, so its
  \<^verbatim>\<open>__qualname__\<close> is \<^verbatim>\<open>'Scope'\<close> too, and it overrides \<^verbatim>\<open>gain\<close> with the
  descriptor 11.  Binding 11 to the class 2 finds the parent's registry
  already tagged \<^verbatim>\<open>'Scope'\<close>, makes no fork and stores 11 in the parent's
  registry: the parent's registered descriptor for \<^verbatim>\<open>gain\<close> is now 11.  For the
  subclass 3, named \<^verbatim>\<open>FastScope\<close>, the same binding forks and the parent keeps
  the descriptor 10.
\<close>

theorem Feat_set_name_same_qualname_overwrites_parent:
  "registered_feat example_world 1 ''gain'' = Some 10
   \<and> registered_feat (state_of (Feat_set_name example_world 11 2 ''gain'')) 1 ''gain'' = Some 11
   \<and> registered_feat (state_of (Feat_set_name example_world 11 2 ''gain'')) 2 ''gain'' = Some 11
   \<and> registered_feat (state_of (Feat_set_name example_world 11 3 ''gain'')) 1 ''gain'' = Some 10
   \<and> registered_feat (state_of (Feat_set_name example_world 11 3 ''gain'')) 3 ''gain'' = Some 11"
proof -
  have r: "\<exists>f'. rebuild None ((example_sub 1)\<lparr>name := ''gain''\<rparr>) = Done f'"
    by (simp add: example_sub_eq rebuild_def Let_def config_get_def class_value_def
        rebuild_processors_def extend_with_def append_def)
  then obtain f' where f': "rebuild None ((example_sub 1)\<lparr>name := ''gain''\<rparr>) = Done f'" ..
  have a: "registered_feat example_world 1 ''gain'' = Some 10"
    by (simp add: registered_feat_def class_registry_def class_getattr_def example_world_def)
  have b: "registered_feat (state_of (Feat_set_name example_world 11 2 ''gain'')) 1 ''gain'' = Some 11"
    "registered_feat (state_of (Feat_set_name example_world 11 2 ''gain'')) 2 ''gain'' = Some 11"
    using f'
    by (simp_all add: Feat_set_name_def register_descriptor_def Let_def registered_feat_def
        class_registry_def class_getattr_def example_world_def)
  have c: "registered_feat (state_of (Feat_set_name example_world 11 3 ''gain'')) 1 ''gain'' = Some 10"
    "registered_feat (state_of (Feat_set_name example_world 11 3 ''gain'')) 3 ''gain'' = Some 11"
    using f'
    by (simp_all add: Feat_set_name_def register_descriptor_def Let_def registered_feat_def
        class_registry_def class_getattr_def example_world_def)
  from a b c show ?thesis by simp
qed

end
